theory Spec2Isabelle
  imports Complex_Main "HOL-Library.Log_Nat"
begin

section \<open>JavaScript values\<close>

text \<open>
  The extraction reply of the completion endpoint is parsed with \<^verbatim>\<open>JSON.parse\<close> and then read
  as an untyped object, so the model keeps the parsed value as a JSON tree. A string is
  the list of its code units (code units below 256 are covered); a number is a rational.
  An object is the list of its members, each name once as \<^verbatim>\<open>JSON.parse\<close> leaves it, looked up
  with \<open>map_of\<close>. A value that may be
  \<^verbatim>\<open>undefined\<close> is a \<open>json option\<close>, with \<open>None\<close> for \<^verbatim>\<open>undefined\<close>.
\<close>

datatype json =
    JNull
  | JBool bool
  | JNum rat
  | JStr string
  | JArr "json list"
  | JObj "(string \<times> json) list"

datatype js_error = TypeError | WriteError

text \<open>A \<^verbatim>\<open>Date\<close> object holds a time value in milliseconds since the epoch, or NaN.\<close>

datatype jsdate = InvalidDate | Date int

text \<open>ToBoolean: what \<^verbatim>\<open>x || y\<close>, \<^verbatim>\<open>x && y\<close> and \<^verbatim>\<open>x ? a : b\<close> test.\<close>

fun truthy :: "json option \<Rightarrow> bool" where
  "truthy None = False"
| "truthy (Some JNull) = False"
| "truthy (Some (JBool b)) = b"
| "truthy (Some (JNum n)) = (n \<noteq> 0)"
| "truthy (Some (JStr s)) = (s \<noteq> [])"
| "truthy (Some (JArr xs)) = True"
| "truthy (Some (JObj kvs)) = True"

text \<open>\<^verbatim>\<open>x || y\<close> on values.\<close>

definition js_or :: "json option \<Rightarrow> json option \<Rightarrow> json option" where
  "js_or x y = (if truthy x then x else y)"

text \<open>
  \<^verbatim>\<open>v.k\<close> for a value \<open>v\<close> that is not \<^verbatim>\<open>null\<close>: the member when \<open>v\<close> is an object that has
  it, \<^verbatim>\<open>undefined\<close> otherwise (none of the names read by the program is a built-in
  property of a string, number, boolean or array). Reading a property of \<^verbatim>\<open>null\<close> raises
  TypeError; the callers test for \<open>JNull\<close> before they read.
\<close>

fun js_field :: "json \<Rightarrow> string \<Rightarrow> json option" where
  "js_field (JObj kvs) k = map_of kvs k"
| "js_field v k = None"

text \<open>
  \<^verbatim>\<open>new Date(v)\<close> first converts an object or array \<open>v\<close> to a primitive, calling its
  \<^verbatim>\<open>valueOf\<close> and then its \<^verbatim>\<open>toString\<close>. A member of a parsed object is never callable, so
  an object with an own member \<^verbatim>\<open>toString\<close> has no usable \<^verbatim>\<open>toString\<close>, the inherited
  \<^verbatim>\<open>valueOf\<close> gives back the object, and the conversion raises TypeError. An array is
  converted by \<^verbatim>\<open>join\<close>, which converts every entry other than \<^verbatim>\<open>null\<close> to a string and
  raises when one of them does. Every other value converts without error.
\<close>

fun toPrimitive_raises :: "json \<Rightarrow> bool" where
  "toPrimitive_raises (JObj kvs) = (map_of kvs ''toString'' \<noteq> None)"
| "toPrimitive_raises (JArr xs) = (\<exists>x \<in> set xs. toPrimitive_raises x)"
| "toPrimitive_raises v = False"

text \<open>
  \<^verbatim>\<open>new Date(v)\<close> on a value read from the parsed reply: TypeError when the conversion to a
  primitive raises; otherwise the date that the constructor builds, \<open>newDate v\<close> (parsing a
  string is left to the engine, so \<open>newDate\<close> is a parameter).
\<close>

definition new_Date :: "(json option \<Rightarrow> jsdate) \<Rightarrow> json option \<Rightarrow> js_error + jsdate" where
  "new_Date newDate v =
     (case v of
        None \<Rightarrow> Inr (newDate None)
      | Some j \<Rightarrow> if toPrimitive_raises j then Inl TypeError else Inr (newDate v))"

text \<open>\<^verbatim>\<open>String.prototype.trim\<close> and \<^verbatim>\<open>toLowerCase\<close> on code units below 256.\<close>

definition is_space :: "char \<Rightarrow> bool" where
  "is_space c = (let n = (of_char c :: nat) in
     n = 9 \<or> n = 10 \<or> n = 11 \<or> n = 12 \<or> n = 13 \<or> n = 32 \<or> n = 160)"

definition trim :: "string \<Rightarrow> string" where
  "trim s = rev (dropWhile is_space (rev (dropWhile is_space s)))"

definition lower_char :: "char \<Rightarrow> char" where
  "lower_char c = (let n = (of_char c :: nat) in
     if (65 \<le> n \<and> n \<le> 90) \<or> (192 \<le> n \<and> n \<le> 222 \<and> n \<noteq> 215)
     then char_of (n + 32) else c)"

definition toLowerCase :: "string \<Rightarrow> string" where
  "toLowerCase s = map lower_char s"

section \<open>The goal record model (types/index.ts)\<close>

text \<open>String-literal unions (domain, status, frequency, type) are kept as strings.\<close>

record milestone =
  ms_id :: string
  ms_title :: string
  ms_description :: "string option"
  ms_targetDate :: jsdate
  ms_completed :: bool
  ms_completedDate :: "jsdate option"
  ms_frequency :: "string option"

datatype mvalue = MNum rat | MBool bool

record history_entry =
  h_date :: jsdate
  h_value :: mvalue

record metric =
  mt_id :: string
  mt_name :: string
  mt_type :: string
  mt_target :: mvalue
  mt_current :: mvalue
  mt_unit :: "string option"
  mt_frequency :: "string option"
  mt_history :: "history_entry list"

record routine =
  rt_id :: string
  rt_name :: string
  rt_description :: "string option"
  rt_frequency :: string
  rt_steps :: "string list"
  rt_lastCompleted :: "jsdate option"
  rt_nextDue :: "jsdate option"

record reflection =
  rf_id :: string
  rf_userId :: string
  rf_date :: jsdate
  rf_type :: string
  rf_progress :: string
  rf_challenges :: string
  rf_insights :: string
  rf_nextSteps :: string
  rf_satisfaction :: rat

record goal =
  g_id :: string
  g_userId :: string
  g_title :: string
  g_description :: string
  g_domain :: string
  g_status :: string
  g_targetDate :: "jsdate option"
  g_createdAt :: jsdate
  g_updatedAt :: jsdate
  g_milestones :: "milestone list"
  g_metrics :: "metric list"
  g_weeklyActions :: "string list"
  g_dailyHabits :: "string list"
  g_routines :: "routine list"
  g_resources :: "string list"
  g_obstacles :: "string list"
  g_successCriteria :: "string list"
  g_reflections :: "reflection list"

section \<open>Freeform extraction (lib/openai.ts, processConversation)\<close>

text \<open>
  The objects that \<open>processConversation\<close> builds from the parsed reply carry whatever JSON
  the reply held, so their pass-through members are \<open>json option\<close>. The draft goal is the
  \<^verbatim>\<open>Partial<Goal>\<close> held by the chat dialog: every member may be absent.
\<close>

record draft_milestone =
  dm_id :: string
  dm_title :: "json option"
  dm_description :: "json option"
  dm_targetDate :: jsdate
  dm_completed :: bool
  dm_frequency :: "json option"

record draft_metric =
  dx_id :: string
  dx_name :: "json option"
  dx_type :: "json option"
  dx_target :: "json option"
  dx_current :: mvalue
  dx_unit :: "json option"
  dx_frequency :: "json option"
  dx_history :: "history_entry list"

record draft_routine =
  dr_id :: string
  dr_name :: "json option"
  dr_description :: "json option"
  dr_frequency :: "json option"
  dr_steps :: "json option"
  dr_lastCompleted :: "jsdate option"
  dr_nextDue :: "jsdate option"

record draft_goal =
  dg_title :: "json option"
  dg_description :: "json option"
  dg_domain :: "json option"
  dg_targetDate :: "jsdate option"
  dg_status :: "string option"
  dg_milestones :: "draft_milestone list option"
  dg_metrics :: "draft_metric list option"
  dg_weeklyActions :: "json option"
  dg_dailyHabits :: "json option"
  dg_routines :: "draft_routine list option"
  dg_resources :: "json option"
  dg_obstacles :: "json option"
  dg_successCriteria :: "json option"
  dg_reflections :: "reflection list option"

text \<open>
  \<^verbatim>\<open>(v || []).map(f)\<close>: a falsy \<open>v\<close> gives the empty array; a truthy array is mapped; any
  other truthy value has no \<^verbatim>\<open>map\<close> method and the call raises TypeError.
\<close>

fun or_empty_array :: "json option \<Rightarrow> js_error + json list" where
  "or_empty_array (Some (JArr xs)) = Inr xs"
| "or_empty_array v = (if truthy v then Inl TypeError else Inr [])"

text \<open>
  \<^verbatim>\<open>xs.map(m => ({ id: crypto.randomUUID(), ... }))\<close>: the callback draws one identifier per
  element, in order, from the generator: \<open>uuids n\<close> is the \<open>n\<close>-th identifier it hands out
  (the page runs in a secure context, where \<^verbatim>\<open>crypto.randomUUID\<close> exists).
  The first error stops the loop.
\<close>

fun map_uuid :: "(string \<Rightarrow> json \<Rightarrow> js_error + 'a) \<Rightarrow> (nat \<Rightarrow> string) \<Rightarrow> nat \<Rightarrow> json list
    \<Rightarrow> js_error + 'a list" where
  "map_uuid f uuids n [] = Inr []"
| "map_uuid f uuids n (x # xs) =
     (case f (uuids n) x of
        Inl e \<Rightarrow> Inl e
      | Inr y \<Rightarrow> (case map_uuid f uuids (Suc n) xs of Inl e \<Rightarrow> Inl e | Inr ys \<Rightarrow> Inr (y # ys)))"

text \<open>
  The three callbacks. Reading a member of a \<^verbatim>\<open>null\<close> entry raises; in the milestone
  callback \<^verbatim>\<open>new Date(m.targetDate)\<close> may raise as well.
\<close>

definition extract_milestone :: "(json option \<Rightarrow> jsdate) \<Rightarrow> string \<Rightarrow> json \<Rightarrow> js_error + draft_milestone" where
  "extract_milestone newDate uid m =
     (if m = JNull then Inl TypeError
      else case new_Date newDate (js_field m ''targetDate'') of
        Inl e \<Rightarrow> Inl e
      | Inr targetDate \<Rightarrow>
          Inr \<lparr> dm_id = uid,
                dm_title = js_field m ''title'',
                dm_description = js_field m ''description'',
                dm_targetDate = targetDate,
                dm_completed = False,
                dm_frequency = js_or (js_field m ''frequency'') (Some (JStr ''once'')) \<rparr>)"

definition extract_metric :: "string \<Rightarrow> json \<Rightarrow> js_error + draft_metric" where
  "extract_metric uid m =
     (if m = JNull then Inl TypeError
      else Inr \<lparr> dx_id = uid,
                 dx_name = js_field m ''name'',
                 dx_type = js_field m ''type'',
                 dx_target = js_field m ''target'',
                 dx_current = MNum 0,
                 dx_unit = js_field m ''unit'',
                 dx_frequency = js_field m ''frequency'',
                 dx_history = [] \<rparr>)"

definition extract_routine :: "string \<Rightarrow> json \<Rightarrow> js_error + draft_routine" where
  "extract_routine uid r =
     (if r = JNull then Inl TypeError
      else Inr \<lparr> dr_id = uid,
                 dr_name = js_field r ''name'',
                 dr_description = js_field r ''description'',
                 dr_frequency = js_field r ''frequency'',
                 dr_steps = js_field r ''steps'',
                 dr_lastCompleted = None,
                 dr_nextDue = None \<rparr>)"

text \<open>
  \<^verbatim>\<open>parsedData.targetDate ? new Date(parsedData.targetDate) : undefined\<close> (line 153); \<open>None\<close> is
  \<^verbatim>\<open>undefined\<close>.
\<close>

definition extract_targetDate :: "(json option \<Rightarrow> jsdate) \<Rightarrow> json option \<Rightarrow> js_error + jsdate option" where
  "extract_targetDate newDate v =
     (if truthy v
      then (case new_Date newDate v of Inl e \<Rightarrow> Inl e | Inr d \<Rightarrow> Inr (Some d))
      else Inr None)"

text \<open>
  The object literal assigned to \<open>extractedData\<close> (lines 149-188), members in source order.
  An error raised while it is evaluated leaves \<open>extractedData\<close> as it was.
\<close>

definition extractData :: "(json option \<Rightarrow> jsdate) \<Rightarrow> (nat \<Rightarrow> string) \<Rightarrow> nat \<Rightarrow> json \<Rightarrow> js_error + draft_goal" where
  "extractData newDate uuids n parsedData =
     (if parsedData = JNull then Inl TypeError
      else case extract_targetDate newDate (js_field parsedData ''targetDate'') of
        Inl e \<Rightarrow> Inl e
      | Inr targetDate \<Rightarrow> (case or_empty_array (js_field parsedData ''milestones'') of
        Inl e \<Rightarrow> Inl e
      | Inr ms \<Rightarrow> (case map_uuid (extract_milestone newDate) uuids n ms of
        Inl e \<Rightarrow> Inl e
      | Inr milestones \<Rightarrow> (case or_empty_array (js_field parsedData ''metrics'') of
        Inl e \<Rightarrow> Inl e
      | Inr xs \<Rightarrow> (case map_uuid extract_metric uuids (n + length ms) xs of
        Inl e \<Rightarrow> Inl e
      | Inr metrics \<Rightarrow> (case or_empty_array (js_field parsedData ''routines'') of
        Inl e \<Rightarrow> Inl e
      | Inr rs \<Rightarrow> (case map_uuid extract_routine uuids (n + length ms + length xs) rs of
        Inl e \<Rightarrow> Inl e
      | Inr routines \<Rightarrow> Inr
          \<lparr> dg_title = js_field parsedData ''title'',
            dg_description = js_field parsedData ''description'',
            dg_domain = js_field parsedData ''domain'',
            dg_targetDate = targetDate,
            dg_status = Some ''active'',
            dg_milestones = Some milestones,
            dg_metrics = Some metrics,
            dg_weeklyActions = js_or (js_field parsedData ''weeklyActions'') (Some (JArr [])),
            dg_dailyHabits = js_or (js_field parsedData ''dailyHabits'') (Some (JArr [])),
            dg_routines = Some routines,
            dg_resources = js_or (js_field parsedData ''resources'') (Some (JArr [])),
            dg_obstacles = js_or (js_field parsedData ''obstacles'') (Some (JArr [])),
            dg_successCriteria = js_or (js_field parsedData ''successCriteria'') (Some (JArr [])),
            dg_reflections = Some [] \<rparr>)))))))"

text \<open>
  \<^verbatim>\<open>requiredFields.every(field => parsedData[field] && parsedData[field].trim() !== '')\<close>:
  a falsy member ends the loop with false; a truthy member that is not a string has no
  \<^verbatim>\<open>trim\<close> method, and the call raises TypeError.
\<close>

fun every_required :: "json \<Rightarrow> string list \<Rightarrow> js_error + bool" where
  "every_required parsedData [] = Inr True"
| "every_required parsedData (k # ks) =
     (if \<not> truthy (js_field parsedData k) then Inr False
      else case js_field parsedData k of
        Some (JStr s) \<Rightarrow> (if trim s \<noteq> [] then every_required parsedData ks else Inr False)
      | _ \<Rightarrow> Inl TypeError)"

definition requiredFields :: "string list" where
  "requiredFields = [''title'', ''description'', ''domain'']"

text \<open>
  The replies of the two completion calls are inputs. The conversational call either gives
  no usable reply (\<open>None\<close>: the call is rejected, or the reply holds no choice to read the
  prompt from) or gives the next prompt. The extraction call is rejected, or gives a
  text that \<^verbatim>\<open>JSON.parse\<close> refuses, or gives a text that parses to a JSON value.
  \<open>extractedData = None\<close> stands for the empty object \<^verbatim>\<open>{}\<close>.
\<close>

datatype extraction_reply = Rejected | Unparseable | Parsed json

record conversation_result =
  nextPrompt :: string
  extractedData :: "draft_goal option"
  conversationComplete :: bool

definition processConversation :: "(json option \<Rightarrow> jsdate) \<Rightarrow> (nat \<Rightarrow> string) \<Rightarrow> nat
    \<Rightarrow> string option \<Rightarrow> extraction_reply \<Rightarrow> conversation_result" where
  "processConversation newDate uuids n conversationReply extractionReply =
     (let failed = \<lparr> nextPrompt = ''I'm having trouble understanding. Could you rephrase that?'',
                      extractedData = None, conversationComplete = False \<rparr>
      in case conversationReply of
        None \<Rightarrow> failed
      | Some prompt \<Rightarrow>
         (case extractionReply of
            Rejected \<Rightarrow> failed
          | Unparseable \<Rightarrow>
              \<lparr> nextPrompt = prompt, extractedData = None, conversationComplete = False \<rparr>
          | Parsed parsedData \<Rightarrow>
             (case extractData newDate uuids n parsedData of
                Inl e \<Rightarrow>
                  \<lparr> nextPrompt = prompt, extractedData = None, conversationComplete = False \<rparr>
              | Inr d \<Rightarrow>
                 (case every_required parsedData requiredFields of
                    Inl e \<Rightarrow>
                      \<lparr> nextPrompt = prompt, extractedData = Some d, conversationComplete = False \<rparr>
                  | Inr b \<Rightarrow>
                      \<lparr> nextPrompt = prompt, extractedData = Some d, conversationComplete = b \<rparr>))))"

section \<open>The freeform chat dialog (FreeformAIChat)\<close>

record message =
  msg_role :: string
  msg_content :: string

record chat_state =
  cs_messages :: "message list"
  cs_input :: string
  cs_isProcessing :: bool
  cs_goalData :: draft_goal
  cs_showSummary :: bool

text \<open>\<^verbatim>\<open>x || y\<close> where \<open>x\<close> is an array or \<^verbatim>\<open>undefined\<close>: every array is truthy, the empty one too.\<close>

definition or_list :: "'a list option \<Rightarrow> 'a list option \<Rightarrow> 'a list option" where
  "or_list x y = (case x of Some xs \<Rightarrow> Some xs | None \<Rightarrow> y)"

text \<open>
  The updater passed to \<open>setGoalData\<close> (lines 1188-1200): the members of \<open>prev\<close>, overwritten
  by every member of \<open>extractedData\<close> (the empty object has none; the object built by
  \<open>extractData\<close> has all fourteen, some of them possibly \<^verbatim>\<open>undefined\<close>), and then the eight
  collections written again as \<^verbatim>\<open>extractedData.k || prev.k\<close>.
\<close>

definition mergeExtracted :: "draft_goal \<Rightarrow> draft_goal option \<Rightarrow> draft_goal" where
  "mergeExtracted prev extracted =
     (case extracted of
        None \<Rightarrow>
          prev \<lparr> dg_milestones := or_list None (dg_milestones prev),
                 dg_metrics := or_list None (dg_metrics prev),
                 dg_weeklyActions := js_or None (dg_weeklyActions prev),
                 dg_dailyHabits := js_or None (dg_dailyHabits prev),
                 dg_routines := or_list None (dg_routines prev),
                 dg_resources := js_or None (dg_resources prev),
                 dg_obstacles := js_or None (dg_obstacles prev),
                 dg_successCriteria := js_or None (dg_successCriteria prev) \<rparr>
      | Some d \<Rightarrow>
          d \<lparr> dg_milestones := or_list (dg_milestones d) (dg_milestones prev),
              dg_metrics := or_list (dg_metrics d) (dg_metrics prev),
              dg_weeklyActions := js_or (dg_weeklyActions d) (dg_weeklyActions prev),
              dg_dailyHabits := js_or (dg_dailyHabits d) (dg_dailyHabits prev),
              dg_routines := or_list (dg_routines d) (dg_routines prev),
              dg_resources := js_or (dg_resources d) (dg_resources prev),
              dg_obstacles := js_or (dg_obstacles d) (dg_obstacles prev),
              dg_successCriteria := js_or (dg_successCriteria d) (dg_successCriteria prev) \<rparr>)"

text \<open>
  \<open>handleSendMessage\<close> of the freeform dialog. \<open>processConversation\<close> catches every error
  itself, so the handler's own \<^verbatim>\<open>catch\<close> branch is never taken.
\<close>

definition freeform_handleSendMessage :: "(json option \<Rightarrow> jsdate) \<Rightarrow> (nat \<Rightarrow> string) \<Rightarrow> nat
    \<Rightarrow> string option \<Rightarrow> extraction_reply \<Rightarrow> chat_state \<Rightarrow> chat_state" where
  "freeform_handleSendMessage newDate uuids n conversationReply extractionReply s =
     (if trim (cs_input s) = [] \<or> cs_isProcessing s then s
      else
        let userMessage = \<lparr> msg_role = ''user'', msg_content = cs_input s \<rparr>;
            result = processConversation newDate uuids n conversationReply extractionReply
        in \<lparr> cs_messages = cs_messages s @ [userMessage] @
                 (if nextPrompt result \<noteq> []
                  then [\<lparr> msg_role = ''assistant'', msg_content = nextPrompt result \<rparr>] else []),
               cs_input = [],
               cs_isProcessing = False,
               cs_goalData = mergeExtracted (cs_goalData s) (extractedData result),
               cs_showSummary = (if conversationComplete result then True else cs_showSummary s) \<rparr>)"

text \<open>\<^verbatim>\<open>xs.map(m => ({ id: crypto.randomUUID(), ... }))\<close> for a callback that cannot fail.\<close>

fun map_ids :: "(string \<Rightarrow> 'a \<Rightarrow> 'b) \<Rightarrow> (nat \<Rightarrow> string) \<Rightarrow> nat \<Rightarrow> 'a list \<Rightarrow> 'b list" where
  "map_ids f uuids n [] = []"
| "map_ids f uuids n (x # xs) = f (uuids n) x # map_ids f uuids (Suc n) xs"

text \<open>
  \<open>handleSaveGoal\<close> (lines 1260-1304): the goal handed to \<open>onCreateGoal\<close>. A \<^verbatim>\<open>Date\<close> object
  is truthy, and \<^verbatim>\<open>new Date(d)\<close> of a \<^verbatim>\<open>Date\<close> copies its time value.
\<close>

definition save_milestone :: "string \<Rightarrow> draft_milestone \<Rightarrow> draft_milestone" where
  "save_milestone uid m =
     \<lparr> dm_id = uid,
       dm_title = dm_title m,
       dm_description = js_or (dm_description m) (Some (JStr [])),
       dm_targetDate = dm_targetDate m,
       dm_completed = False,
       dm_frequency = js_or (dm_frequency m) (Some (JStr ''once'')) \<rparr>"

definition save_metric :: "string \<Rightarrow> draft_metric \<Rightarrow> draft_metric" where
  "save_metric uid m =
     \<lparr> dx_id = uid,
       dx_name = dx_name m,
       dx_type = dx_type m,
       dx_target = dx_target m,
       dx_current = (if dx_type m = Some (JStr ''boolean'') then MBool False else MNum 0),
       dx_unit = js_or (dx_unit m) (Some (JStr [])),
       dx_frequency = js_or (dx_frequency m) (Some (JStr ''daily'')),
       dx_history = [] \<rparr>"

definition save_routine :: "string \<Rightarrow> draft_routine \<Rightarrow> draft_routine" where
  "save_routine uid r =
     \<lparr> dr_id = uid,
       dr_name = dr_name r,
       dr_description = js_or (dr_description r) (Some (JStr [])),
       dr_frequency = js_or (dr_frequency r) (Some (JStr ''daily'')),
       dr_steps = dr_steps r,
       dr_lastCompleted = None,
       dr_nextDue = None \<rparr>"

definition list_or_empty :: "'a list option \<Rightarrow> 'a list" where
  "list_or_empty x = (case x of Some xs \<Rightarrow> xs | None \<Rightarrow> [])"

definition handleSaveGoal :: "(nat \<Rightarrow> string) \<Rightarrow> nat \<Rightarrow> draft_goal \<Rightarrow> draft_goal" where
  "handleSaveGoal uuids n goalData =
     (let ms = list_or_empty (dg_milestones goalData);
          xs = list_or_empty (dg_metrics goalData);
          rs = list_or_empty (dg_routines goalData)
      in \<lparr> dg_title = js_or (dg_title goalData) (Some (JStr [])),
             dg_description = js_or (dg_description goalData) (Some (JStr [])),
             dg_domain = js_or (dg_domain goalData) (Some (JStr ''personal'')),
             dg_targetDate = dg_targetDate goalData,
             dg_status = Some ''active'',
             dg_milestones = Some (map_ids save_milestone uuids n ms),
             dg_metrics = Some (map_ids save_metric uuids (n + length ms) xs),
             dg_weeklyActions = js_or (dg_weeklyActions goalData) (Some (JArr [])),
             dg_dailyHabits = js_or (dg_dailyHabits goalData) (Some (JArr [])),
             dg_routines = Some (map_ids save_routine uuids (n + length ms + length xs) rs),
             dg_resources = js_or (dg_resources goalData) (Some (JArr [])),
             dg_obstacles = js_or (dg_obstacles goalData) (Some (JArr [])),
             dg_successCriteria = js_or (dg_successCriteria goalData) (Some (JArr [])),
             dg_reflections = Some [] \<rparr>)"

section \<open>The guided dialog (AIGoalCreation)\<close>

record partial_goal =
  pg_title :: "string option"
  pg_description :: "string option"
  pg_domain :: "string option"
  pg_status :: "string option"
  pg_targetDate :: "jsdate option"
  pg_milestones :: "milestone list option"
  pg_metrics :: "metric list option"
  pg_weeklyActions :: "string list option"
  pg_dailyHabits :: "string list option"
  pg_routines :: "routine list option"
  pg_resources :: "string list option"
  pg_obstacles :: "string list option"
  pg_successCriteria :: "string list option"
  pg_reflections :: "reflection list option"

record guided_state =
  gs_messages :: "message list"
  gs_input :: string
  gs_currentStep :: nat
  gs_suggestions :: "string list"
  gs_transitioning :: bool
  gs_goalData :: partial_goal

definition questions :: "string list" where
  "questions =
     [''What area of your life would you like to focus on? (work, health, financial, family, personal growth, community, or home)'',
      ''Great! Now, what specific goal would you like to achieve in this area? Be as specific as possible.'',
      ''Why is this goal important to you? This will help create a meaningful description.'',
      ''When would you like to achieve this goal by? (e.g., 3 months, 6 months, 1 year)'',
      ''Let's break this down into milestones. What are 2-3 key checkpoints on the way to your goal?'',
      ''How will you measure progress? Let's create some metrics. (e.g., frequency, quantity, yes/no achievements)'',
      ''What weekly actions will help you make progress? List 2-3 specific actions.'',
      ''What daily habits would support this goal? List 1-2 key habits to develop.'',
      ''Let's create a routine to support this goal. What steps would be involved?'',
      ''What resources will you need to achieve this goal?'',
      ''What potential obstacles might you face?'',
      ''Finally, how will you know you've succeeded? List 2-3 specific success criteria.'']"

text \<open>The heading of the dialog: \<^verbatim>\<open>questions[currentStep - 1]\<close>, \<^verbatim>\<open>undefined\<close> out of range.\<close>

definition currentQuestion :: "guided_state \<Rightarrow> string option" where
  "currentQuestion s =
     (if 1 \<le> gs_currentStep s \<and> gs_currentStep s \<le> length questions
      then Some (questions ! (gs_currentStep s - 1)) else None)"

definition domainTags :: "string list" where
  "domainTags = [''work'', ''health'', ''financial'', ''family'', ''personal'', ''community'', ''home'']"

definition correctiveMessage :: string where
  "correctiveMessage =
     ''Please choose one of the following domains: work, health, financial, family, personal, community, or home.''"

text \<open>
  The start of \<open>handleSendMessage\<close> (lines 824-829), shared by every step: a blank input
  returns at once; otherwise the user's message is appended, and the input and the
  suggestions are cleared. \<open>None\<close> is the early return.
\<close>

definition guided_prologue :: "guided_state \<Rightarrow> guided_state option" where
  "guided_prologue s =
     (if trim (gs_input s) = [] then None
      else Some (s \<lparr> gs_messages := gs_messages s @ [\<lparr> msg_role = ''user'', msg_content = gs_input s \<rparr>],
                      gs_input := [],
                      gs_suggestions := [] \<rparr>))"

definition assistant :: "string \<Rightarrow> message" where
  "assistant text = \<lparr> msg_role = ''assistant'', msg_content = text \<rparr>"

text \<open>
  \<open>handleSendMessage\<close> when \<open>currentStep\<close> is 1 (case 1, lines 840-856). \<open>aiResponse\<close> is the
  reply of \<open>getAIResponse\<close>, which always returns a string.
\<close>

definition guided_handleSendMessage_case1 :: "string \<Rightarrow> guided_state \<Rightarrow> guided_state" where
  "guided_handleSendMessage_case1 aiResponse s =
     (case guided_prologue s of
        None \<Rightarrow> s
      | Some s1 \<Rightarrow>
          let domain = toLowerCase (gs_input s)
          in if domain \<in> set domainTags
             then s1 \<lparr> gs_goalData := (gs_goalData s1) \<lparr> pg_domain := Some domain \<rparr>,
                       gs_transitioning := True,
                       gs_messages := gs_messages s1 @ [assistant aiResponse],
                       gs_currentStep := 2 \<rparr>
             else s1 \<lparr> gs_messages := gs_messages s1 @ [assistant correctiveMessage] \<rparr>)"

text \<open>\<^verbatim>\<open>s.split(',')\<close>: the pieces between the separators; never the empty list.\<close>

fun split_on :: "char \<Rightarrow> string \<Rightarrow> string list" where
  "split_on c [] = [[]]"
| "split_on c (x # xs) =
     (if x = c then [] # split_on c xs
      else case split_on c xs of
        w # ws \<Rightarrow> (x # w) # ws
      | [] \<Rightarrow> [[x]])"

text \<open>
  \<^verbatim>\<open>new Date(d.getTime() * 0.5)\<close>: the time value is an integer below \<open>2^53\<close> in size, so
  halving it is exact, and the constructor drops the fraction (towards zero). An invalid
  date has the time value NaN and stays invalid.
\<close>

fun half_date :: "jsdate \<Rightarrow> jsdate" where
  "half_date InvalidDate = InvalidDate"
| "half_date (Date t) = Date (if 0 \<le> t then t div 2 else - ((- t) div 2))"

definition step5_milestone :: "jsdate \<Rightarrow> string \<Rightarrow> string \<Rightarrow> milestone" where
  "step5_milestone target uid piece =
     \<lparr> ms_id = uid,
       ms_title = trim piece,
       ms_description = Some [],
       ms_targetDate = half_date target,
       ms_completed = False,
       ms_completedDate = None,
       ms_frequency = Some ''once'' \<rparr>"

text \<open>
  \<open>handleSendMessage\<close> when \<open>currentStep\<close> is 5 (case 5, lines 906-922). The callback reads
  \<^verbatim>\<open>goalData.targetDate!.getTime()\<close>: with no target date recorded it raises TypeError on
  the first piece (\<open>split\<close> always gives one).
\<close>

definition guided_handleSendMessage_case5 :: "(nat \<Rightarrow> string) \<Rightarrow> nat \<Rightarrow> string \<Rightarrow> guided_state
    \<Rightarrow> js_error + guided_state" where
  "guided_handleSendMessage_case5 uuids n aiResponse s =
     (case guided_prologue s of
        None \<Rightarrow> Inr s
      | Some s1 \<Rightarrow>
         (case pg_targetDate (gs_goalData s) of
            None \<Rightarrow> Inl TypeError
          | Some target \<Rightarrow>
              let milestones = map_ids (step5_milestone target) uuids n (split_on CHR '','' (gs_input s))
              in Inr (s1 \<lparr> gs_goalData := (gs_goalData s1) \<lparr> pg_milestones := Some milestones \<rparr>,
                           gs_transitioning := True,
                           gs_messages := gs_messages s1 @ [assistant aiResponse],
                           gs_currentStep := 6 \<rparr>)))"

section \<open>The document store\<close>

text \<open>
  The goals collection maps a document id to its document. \<open>updateDoc\<close> overwrites the given
  members of an existing document. Whether the store accepts a write (network, rules) is
  an input; a write to a document that does not exist is rejected.
\<close>

type_synonym store = "string \<Rightarrow> goal option"

definition updateDoc :: "bool \<Rightarrow> store \<Rightarrow> string \<Rightarrow> (goal \<Rightarrow> goal) \<Rightarrow> js_error + store" where
  "updateDoc accepted db goalId upd =
     (if \<not> accepted then Inl WriteError
      else case db goalId of
        None \<Rightarrow> Inl WriteError
      | Some d \<Rightarrow> Inr (db (goalId := Some (upd d))))"

section \<open>The goal detail view (GoalDetails)\<close>

record details_state =
  gd_goalId :: string
  gd_user :: "string option"
  gd_goal :: "goal option"
  gd_db :: store
  gd_console :: "string list"

text \<open>
  Each mutation awaits \<open>updateDoc\<close> inside \<^verbatim>\<open>try\<close> and calls \<open>setGoal\<close> on the next line: a
  rejected write jumps to \<^verbatim>\<open>catch\<close>, which logs, and \<open>setGoal\<close> is not reached. \<open>now\<close> is the
  clock read by \<^verbatim>\<open>new Date()\<close>.
\<close>

definition updateGoalStatus :: "bool \<Rightarrow> int \<Rightarrow> string \<Rightarrow> details_state \<Rightarrow> details_state" where
  "updateGoalStatus accepted now status s =
     (case (gd_user s, gd_goal s) of
        (Some user, Some goal) \<Rightarrow>
          (case updateDoc accepted (gd_db s) (gd_goalId s)
                  (\<lambda>d. d \<lparr> g_status := status, g_updatedAt := Date now \<rparr>) of
             Inr db' \<Rightarrow> s \<lparr> gd_db := db', gd_goal := Some (goal \<lparr> g_status := status \<rparr>) \<rparr>
           | Inl e \<Rightarrow> s \<lparr> gd_console := gd_console s @ [''Error updating goal status:''] \<rparr>)
      | _ \<Rightarrow> s)"

definition toggle_one :: "int \<Rightarrow> string \<Rightarrow> bool \<Rightarrow> milestone \<Rightarrow> milestone" where
  "toggle_one now milestoneId completed m =
     (if ms_id m = milestoneId
      then m \<lparr> ms_completed := completed,
               ms_completedDate := (if completed then Some (Date now) else None) \<rparr>
      else m)"

definition toggleMilestone :: "bool \<Rightarrow> int \<Rightarrow> string \<Rightarrow> bool \<Rightarrow> details_state \<Rightarrow> details_state" where
  "toggleMilestone accepted now milestoneId completed s =
     (case (gd_user s, gd_goal s) of
        (Some user, Some goal) \<Rightarrow>
          let updatedMilestones = map (toggle_one now milestoneId completed) (g_milestones goal)
          in (case updateDoc accepted (gd_db s) (gd_goalId s)
                     (\<lambda>d. d \<lparr> g_milestones := updatedMilestones, g_updatedAt := Date now \<rparr>) of
                Inr db' \<Rightarrow>
                  s \<lparr> gd_db := db', gd_goal := Some (goal \<lparr> g_milestones := updatedMilestones \<rparr>) \<rparr>
              | Inl e \<Rightarrow> s \<lparr> gd_console := gd_console s @ [''Error updating milestone:''] \<rparr>)
      | _ \<Rightarrow> s)"

definition update_one :: "int \<Rightarrow> string \<Rightarrow> mvalue \<Rightarrow> metric \<Rightarrow> metric" where
  "update_one now metricId v m =
     (if mt_id m = metricId
      then m \<lparr> mt_current := v,
               mt_history := mt_history m @ [\<lparr> h_date = Date now, h_value = v \<rparr>] \<rparr>
      else m)"

definition updateMetric :: "bool \<Rightarrow> int \<Rightarrow> string \<Rightarrow> mvalue \<Rightarrow> details_state \<Rightarrow> details_state" where
  "updateMetric accepted now metricId v s =
     (case (gd_user s, gd_goal s) of
        (Some user, Some goal) \<Rightarrow>
          let updatedMetrics = map (update_one now metricId v) (g_metrics goal)
          in (case updateDoc accepted (gd_db s) (gd_goalId s)
                     (\<lambda>d. d \<lparr> g_metrics := updatedMetrics, g_updatedAt := Date now \<rparr>) of
                Inr db' \<Rightarrow>
                  s \<lparr> gd_db := db', gd_goal := Some (goal \<lparr> g_metrics := updatedMetrics \<rparr>) \<rparr>
              | Inl e \<Rightarrow> s \<lparr> gd_console := gd_console s @ [''Error updating metric:''] \<rparr>)
      | _ \<Rightarrow> s)"

text \<open>
  \<open>addReflection\<close> takes a reflection without \<open>id\<close> and \<open>userId\<close>; the model takes the record
  and overwrites the two members, \<open>uid\<close> being the identifier \<^verbatim>\<open>crypto.randomUUID()\<close> returns.
\<close>

definition addReflection :: "bool \<Rightarrow> int \<Rightarrow> string \<Rightarrow> reflection \<Rightarrow> details_state \<Rightarrow> details_state" where
  "addReflection accepted now uid r s =
     (case (gd_user s, gd_goal s) of
        (Some user, Some goal) \<Rightarrow>
          let newReflection = r \<lparr> rf_id := uid, rf_userId := user \<rparr>;
              updatedReflections = g_reflections goal @ [newReflection]
          in (case updateDoc accepted (gd_db s) (gd_goalId s)
                     (\<lambda>d. d \<lparr> g_reflections := updatedReflections, g_updatedAt := Date now \<rparr>) of
                Inr db' \<Rightarrow>
                  s \<lparr> gd_db := db', gd_goal := Some (goal \<lparr> g_reflections := updatedReflections \<rparr>) \<rparr>
              | Inl e \<Rightarrow> s \<lparr> gd_console := gd_console s @ [''Error adding reflection:''] \<rparr>)
      | _ \<Rightarrow> s)"

text \<open>
  Numbers are IEEE 754 doubles: the result of a division or a multiplication is the exact
  result rounded to the nearest double, to the even one at a tie. A double is kept as the
  rational it denotes. \<open>binade x\<close> is the exponent \<open>e\<close> with \<open>2^e \<le> x < 2^(e+1)\<close> for a positive
  \<open>x\<close>; doubles in that range are the multiples of \<open>2^(e-52)\<close>, and below \<open>2^(-1022)\<close> the
  multiples of \<open>2^(-1074)\<close>. Overflow is not modelled (magnitudes stay below \<open>2^1024\<close> here).
\<close>

definition binade :: "rat \<Rightarrow> int" where
  "binade x = (if 1 \<le> x then bitlen \<lfloor>x\<rfloor> - 1 else - bitlen (\<lceil>1 / x\<rceil> - 1))"

definition round_half_even :: "rat \<Rightarrow> int" where
  "round_half_even r =
     (let n = \<lfloor>r\<rfloor>; f = r - of_int n
      in if f < 1 / 2 then n else if 1 / 2 < f then n + 1 else if even n then n else n + 1)"

definition to_double :: "rat \<Rightarrow> rat" where
  "to_double x =
     (if x = 0 then 0
      else let a = \<bar>x\<bar>; e = max (binade a) (- 1022); ulp = 2 powi (e - 52)
           in sgn x * (of_int (round_half_even (a / ulp)) * ulp))"

definition double_div :: "rat \<Rightarrow> rat \<Rightarrow> rat" where
  "double_div a b = to_double (a / b)"

definition double_mul :: "rat \<Rightarrow> rat \<Rightarrow> rat" where
  "double_mul a b = to_double (a * b)"

text \<open>
  \<^verbatim>\<open>Math.round(x)\<close> is the integer nearest to the double \<open>x\<close>, the larger one at a tie; it is
  computed on the value of \<open>x\<close> without a further rounding.
\<close>

definition math_round :: "rat \<Rightarrow> int" where
  "math_round x = \<lfloor>x + 1 / 2\<rfloor>"

text \<open>
  \<open>getProgressPercentage\<close>: the same body in GoalDetails, GoalsList and DomainDetails. The two
  lengths are integers below \<open>2^32\<close> and exact as doubles; the quotient and the product are
  rounded.
\<close>

definition getProgressPercentage :: "goal \<Rightarrow> int" where
  "getProgressPercentage goal =
     (let totalMilestones = length (g_milestones goal);
          completedMilestones = length (filter ms_completed (g_milestones goal))
      in if totalMilestones > 0
         then math_round (double_mul (double_div (of_nat completedMilestones) (of_nat totalMilestones)) 100)
         else 0)"

section \<open>The goal list (GoalsList)\<close>

record list_state =
  gl_user :: "string option"
  gl_goals :: "goal list"
  gl_db :: store
  gl_console :: "string list"

text \<open>
  \<open>handleToggleMilestone\<close> (lines 102-125) writes to the store only; the list is refreshed
  by the store's subscription, not by the handler.
\<close>

definition handleToggleMilestone :: "bool \<Rightarrow> int \<Rightarrow> string \<Rightarrow> string \<Rightarrow> bool \<Rightarrow> list_state \<Rightarrow> list_state" where
  "handleToggleMilestone accepted now goalId milestoneId completed s =
     (case gl_user s of
        None \<Rightarrow> s
      | Some user \<Rightarrow>
         (case find (\<lambda>g. g_id g = goalId) (gl_goals s) of
            None \<Rightarrow> s
          | Some goal \<Rightarrow>
              let updatedMilestones = map (toggle_one now milestoneId completed) (g_milestones goal)
              in (case updateDoc accepted (gl_db s) goalId
                         (\<lambda>d. d \<lparr> g_milestones := updatedMilestones, g_updatedAt := Date now \<rparr>) of
                    Inr db' \<Rightarrow> s \<lparr> gl_db := db' \<rparr>
                  | Inl e \<Rightarrow> s \<lparr> gl_console := gl_console s @ [''Error updating milestone:''] \<rparr>)))"

section \<open>The notification poller (NotificationBell)\<close>

record notification =
  n_id :: string
  n_type :: string
  n_title :: string
  n_message :: string
  n_date :: int
  n_read :: bool

definition week :: int where
  "week = 7 * 24 * 60 * 60 * 1000"

text \<open>
  The poller takes the documents of the query's snapshot as \<^verbatim>\<open>doc.data()\<close> returns them and
  casts them to \<open>Goal\<close>. A \<^verbatim>\<open>Date\<close> that a writer handed to the store is kept there as a
  Firestore \<^verbatim>\<open>Timestamp\<close> (seconds and nanoseconds), and \<^verbatim>\<open>doc.data()\<close> returns that
  \<^verbatim>\<open>Timestamp\<close> object; neither the poller nor any other part of the program converts it
  back with \<^verbatim>\<open>toDate()\<close>. \<^verbatim>\<open>new Date(x)\<close> of a \<^verbatim>\<open>Timestamp\<close> \<open>x\<close> converts \<open>x\<close> to its primitive
  value, a string that is not a date string, so the result is Invalid Date.
  The documents given to the poller are the records as written; \<open>read_back d\<close> is
  \<^verbatim>\<open>new Date(x)\<close> for the member \<open>x\<close> that the snapshot holds for a date written as \<open>d\<close>.
\<close>

datatype fs_timestamp = Timestamp int int

definition fromDate :: "int \<Rightarrow> fs_timestamp" where
  "fromDate t = Timestamp (t div 1000) (t mod 1000 * 1000000)"

definition new_Date_of_timestamp :: "fs_timestamp \<Rightarrow> jsdate" where
  "new_Date_of_timestamp x = InvalidDate"

fun read_back :: "jsdate \<Rightarrow> jsdate" where
  "read_back (Date t) = new_Date_of_timestamp (fromDate t)"
| "read_back InvalidDate = InvalidDate"

text \<open>
  \<^verbatim>\<open>new Date(d) <= weekFromNow\<close> compares time values; a comparison with NaN is false.
\<close>

fun due_by :: "jsdate \<Rightarrow> int \<Rightarrow> bool" where
  "due_by InvalidDate limit = False"
| "due_by (Date t) limit = (t \<le> limit)"

fun time_of :: "jsdate \<Rightarrow> int" where
  "time_of (Date t) = t"
| "time_of InvalidDate = 0"

text \<open>
  The three passes over the goals. \<open>showDate\<close> is \<^verbatim>\<open>toLocaleDateString\<close>. A notice is pushed
  only for a date that passed the comparison, so its date is valid and \<open>time_of\<close> reads it.
  Every date member is read through \<open>read_back\<close>.
\<close>

definition milestone_notices :: "(int \<Rightarrow> string) \<Rightarrow> int \<Rightarrow> goal \<Rightarrow> notification list" where
  "milestone_notices showDate now goal =
     map (\<lambda>m. \<lparr> n_id = ''milestone-'' @ ms_id m,
                 n_type = ''milestone'',
                 n_title = ''Upcoming Milestone'',
                 n_message = [CHR 0x22] @ ms_title m @ [CHR 0x22] @ '' for goal '' @ [CHR 0x22] @ g_title goal
                    @ [CHR 0x22] @ '' is due on '' @ showDate (time_of (read_back (ms_targetDate m))),
                 n_date = time_of (read_back (ms_targetDate m)),
                 n_read = False \<rparr>)
       (filter (\<lambda>m. \<not> ms_completed m \<and> due_by (read_back (ms_targetDate m)) (now + week))
          (g_milestones goal))"

definition review_notices :: "int \<Rightarrow> goal \<Rightarrow> notification list" where
  "review_notices now goal =
     (if g_reflections goal = []
         \<or> (case read_back (rf_date (last (g_reflections goal))) of
               Date t \<Rightarrow> t + week < now
             | InvalidDate \<Rightarrow> False)
      then [\<lparr> n_id = ''review-'' @ g_id goal,
               n_type = ''review'',
               n_title = ''Review Needed'',
               n_message = ''It's time for a weekly review of your goal '' @ [CHR 0x22] @ g_title goal @ [CHR 0x22],
               n_date = now,
               n_read = False \<rparr>]
      else [])"

definition deadline_notices :: "(int \<Rightarrow> string) \<Rightarrow> int \<Rightarrow> goal \<Rightarrow> notification list" where
  "deadline_notices showDate now goal =
     (case g_targetDate goal of
        None \<Rightarrow> []
      | Some d \<Rightarrow>
          if due_by (read_back d) (now + week)
          then [\<lparr> n_id = ''goal-'' @ g_id goal,
                   n_type = ''goal'',
                   n_title = ''Goal Deadline Approaching'',
                   n_message = ''Your goal '' @ [CHR 0x22] @ g_title goal @ [CHR 0x22] @ '' is due on ''
                      @ showDate (time_of (read_back d)),
                   n_date = time_of (read_back d),
                   n_read = False \<rparr>]
          else [])"

text \<open>
  One poll. With no signed-in user the list is left as it was. Otherwise the query gives
  the user's active goals, and the new list is the three passes, sorted by date, latest
  first (the sort is stable).
\<close>

definition checkNotifications :: "(int \<Rightarrow> string) \<Rightarrow> string option \<Rightarrow> int \<Rightarrow> goal list
    \<Rightarrow> notification list \<Rightarrow> notification list" where
  "checkNotifications showDate user now docs notifications =
     (case user of
        None \<Rightarrow> notifications
      | Some uid \<Rightarrow>
          let goals = filter (\<lambda>g. g_userId g = uid \<and> g_status g = ''active'') docs;
              newNotifications =
                concat (map (milestone_notices showDate now) goals)
                @ concat (map (review_notices now) goals)
                @ concat (map (deadline_notices showDate now) goals)
          in sort_key (\<lambda>n. - n_date n) newNotifications)"

section \<open>Predicates of the specification and example inputs\<close>

text \<open>
  "Present and non-blank", in the specification's words: the member is a string that is not
  empty after trimming whitespace.
\<close>

definition present_and_non_blank :: "json \<Rightarrow> string \<Rightarrow> bool" where
  "present_and_non_blank parsedData k =
     (case js_field parsedData k of Some (JStr s) \<Rightarrow> trim s \<noteq> [] | _ \<Rightarrow> False)"

text \<open>
  A member that \<^verbatim>\<open>(v || []).map(...)\<close> can walk: falsy, or an array with no \<^verbatim>\<open>null\<close> entry.
\<close>

fun mappable :: "json option \<Rightarrow> bool" where
  "mappable (Some (JArr xs)) = (JNull \<notin> set xs)"
| "mappable v = (\<not> truthy v)"

text \<open>
  A member from which \<^verbatim>\<open>new Date\<close> cannot build a date: an object with a member \<open>toString\<close>, or
  an array that holds such an object, directly or inside nested arrays.
\<close>

definition date_raises :: "json option \<Rightarrow> bool" where
  "date_raises v = (case v of Some j \<Rightarrow> toPrimitive_raises j | None \<Rightarrow> False)"

text \<open>
  A milestone entry that the milestone callback can transform, and a \<open>milestones\<close> member that
  \<^verbatim>\<open>(v || []).map(...)\<close> can walk with that callback.
\<close>

definition milestone_ok :: "json \<Rightarrow> bool" where
  "milestone_ok m = (m \<noteq> JNull \<and> \<not> date_raises (js_field m ''targetDate''))"

fun mappable_milestones :: "json option \<Rightarrow> bool" where
  "mappable_milestones (Some (JArr xs)) = list_all milestone_ok xs"
| "mappable_milestones v = (\<not> truthy v)"

text \<open>The array a reply carries for a collection; the empty one when it carries no array.\<close>

definition reply_array :: "json \<Rightarrow> string \<Rightarrow> json list" where
  "reply_array parsedData k = (case js_field parsedData k of Some (JArr xs) \<Rightarrow> xs | _ \<Rightarrow> [])"

text \<open>
  A plain list of the draft goal is replaced by the reply: by the reply's array when it has
  one, by the empty array when the member is absent.
\<close>

definition replaced_by_reply :: "json \<Rightarrow> string \<Rightarrow> json option \<Rightarrow> bool" where
  "replaced_by_reply parsedData k field =
     (case js_field parsedData k of
        Some (JArr xs) \<Rightarrow> field = Some (JArr xs)
      | None \<Rightarrow> field = Some (JArr [])
      | _ \<Rightarrow> True)"

text \<open>Replies and dialog states used as concrete inputs.\<close>

definition run5k :: json where
  "run5k = JObj [(''title'', JStr ''Run 5k''), (''description'', JStr ''x''), (''domain'', JStr ''health'')]"

definition run5k_without_domain :: json where
  "run5k_without_domain = JObj [(''title'', JStr ''Run 5k''), (''description'', JStr ''x'')]"

definition run5k_unreadable_date :: json where
  "run5k_unreadable_date =
     JObj [(''title'', JStr ''Run 5k''), (''description'', JStr ''x''), (''domain'', JStr ''health''),
           (''targetDate'', JObj [(''toString'', JNum 0)])]"

definition run5k_text_milestones :: json where
  "run5k_text_milestones =
     JObj [(''title'', JStr ''Run 5k''), (''description'', JStr ''x''), (''domain'', JStr ''health''),
           (''milestones'', JStr ''none'')]"

definition initial_draft :: draft_goal where
  "initial_draft =
     \<lparr> dg_title = None, dg_description = None, dg_domain = None, dg_targetDate = None,
       dg_status = Some ''active'', dg_milestones = Some [], dg_metrics = Some [],
       dg_weeklyActions = Some (JArr []), dg_dailyHabits = Some (JArr []), dg_routines = Some [],
       dg_resources = Some (JArr []), dg_obstacles = Some (JArr []),
       dg_successCriteria = Some (JArr []), dg_reflections = Some [] \<rparr>"

definition chat_with_actions :: chat_state where
  "chat_with_actions =
     \<lparr> cs_messages = [],
       cs_input = ''I also want to sleep more'',
       cs_isProcessing = False,
       cs_goalData = initial_draft \<lparr> dg_weeklyActions := Some (JArr [JStr ''Run three times'']) \<rparr>,
       cs_showSummary = False \<rparr>"

definition reply_without_actions :: json where
  "reply_without_actions = JObj [(''title'', JStr ''Sleep more'')]"

definition reply_with_actions :: json where
  "reply_with_actions =
     JObj [(''title'', JStr ''Sleep more''), (''weeklyActions'', JArr [JStr ''Lights out at ten''])]"

text \<open>
  A case-insensitive match of one of the seven domain tags, in the specification's words:
  the input and the tag are equal once both are lowercased.
\<close>

definition matches_domain_tag :: "string \<Rightarrow> bool" where
  "matches_domain_tag input = (\<exists>tag \<in> set domainTags. toLowerCase input = toLowerCase tag)"

text \<open>
  The milestone date the specification gives for step 5, \<open>N + 0.5 * (T - N)\<close>, on time
  values in milliseconds.
\<close>

definition midpoint_date :: "int \<Rightarrow> int \<Rightarrow> jsdate" where
  "midpoint_date now target = Date (now + (target - now) div 2)"

definition initial_partial_goal :: partial_goal where
  "initial_partial_goal =
     \<lparr> pg_title = None, pg_description = None, pg_domain = None, pg_status = Some ''active'',
       pg_targetDate = None, pg_milestones = Some [], pg_metrics = Some [],
       pg_weeklyActions = Some [], pg_dailyHabits = Some [], pg_routines = Some [],
       pg_resources = Some [], pg_obstacles = Some [], pg_successCriteria = Some [],
       pg_reflections = Some [] \<rparr>"

definition guided_initial :: guided_state where
  "guided_initial =
     \<lparr> gs_messages = [assistant ''Hi! What area of your life would you like to focus on?''],
       gs_input = [],
       gs_currentStep = 1,
       gs_suggestions = [],
       gs_transitioning = False,
       gs_goalData = initial_partial_goal \<rparr>"

definition guided_at_step5 :: guided_state where
  "guided_at_step5 =
     guided_initial
       \<lparr> gs_input := ''Run 2k, Run 4k'',
         gs_currentStep := 5,
         gs_goalData := initial_partial_goal
           \<lparr> pg_domain := Some ''health'', pg_title := Some ''Run 5k'',
             pg_description := Some ''x'', pg_targetDate := Some (Date 1800000000000) \<rparr> \<rparr>"

text \<open>The persistence write of a detail-view mutation succeeds.\<close>

definition write_succeeds :: "bool \<Rightarrow> details_state \<Rightarrow> bool" where
  "write_succeeds accepted s = (accepted \<and> gd_db s (gd_goalId s) \<noteq> None)"

text \<open>
  The frame of a milestone toggle: the lists agree in length and order, a milestone with
  another id is the same, a milestone differs at most in \<open>completed\<close> and \<open>completedDate\<close>,
  and with no milestone of the given id the list is the same.
\<close>

definition differs_only_in_completion :: "milestone \<Rightarrow> milestone \<Rightarrow> bool" where
  "differs_only_in_completion m m' =
     (m' = m \<lparr> ms_completed := ms_completed m', ms_completedDate := ms_completedDate m' \<rparr>)"

definition toggle_frame :: "string \<Rightarrow> milestone list \<Rightarrow> milestone list \<Rightarrow> bool" where
  "toggle_frame milestoneId ms ms' =
     (list_all2 (\<lambda>m m'. (ms_id m \<noteq> milestoneId \<longrightarrow> m' = m) \<and> differs_only_in_completion m m') ms ms'
      \<and> (milestoneId \<notin> set (map ms_id ms) \<longrightarrow> ms' = ms))"

text \<open>A goal with three milestones, the first completed, and one metric.\<close>

definition sample_milestone :: "string \<Rightarrow> bool \<Rightarrow> milestone" where
  "sample_milestone mid done =
     \<lparr> ms_id = mid, ms_title = ''Run'', ms_description = None,
       ms_targetDate = Date 1750000000000, ms_completed = done,
       ms_completedDate = None, ms_frequency = Some ''once'' \<rparr>"

definition sample_metric :: metric where
  "sample_metric =
     \<lparr> mt_id = ''km'', mt_name = ''Weekly distance'', mt_type = ''number'', mt_target = MNum 20,
       mt_current = MNum 0, mt_unit = Some ''km'', mt_frequency = Some ''weekly'',
       mt_history = [] \<rparr>"

definition sample_goal :: goal where
  "sample_goal =
     \<lparr> g_id = ''g1'', g_userId = ''u1'', g_title = ''Run 5k'', g_description = ''x'',
       g_domain = ''health'', g_status = ''active'', g_targetDate = Some (Date 1800000000000),
       g_createdAt = Date 1700000000000, g_updatedAt = Date 1700000000000,
       g_milestones = [sample_milestone ''m1'' True, sample_milestone ''m2'' False,
                       sample_milestone ''m3'' False],
       g_metrics = [sample_metric],
       g_weeklyActions = [], g_dailyHabits = [], g_routines = [], g_resources = [],
       g_obstacles = [], g_successCriteria = [], g_reflections = [] \<rparr>"

text \<open>
  The percentage in the specification's words: completed divided by total, times 100, in
  exact arithmetic, and its rounding to the nearest integer (the larger one at a tie, as
  \<^verbatim>\<open>Math.round\<close> rounds).
\<close>

definition exact_percentage :: "goal \<Rightarrow> rat" where
  "exact_percentage goal =
     of_nat (length (filter ms_completed (g_milestones goal))) / of_nat (length (g_milestones goal)) * 100"

definition nearest_integer :: "rat \<Rightarrow> int" where
  "nearest_integer x = \<lfloor>x + 1 / 2\<rfloor>"

text \<open>Goals with 23 of 40 and with 1 of 8 milestones completed.\<close>

definition goal_23_of_40 :: goal where
  "goal_23_of_40 =
     sample_goal \<lparr> g_milestones := replicate 23 (sample_milestone ''a'' True)
                                    @ replicate 17 (sample_milestone ''b'' False) \<rparr>"

definition goal_1_of_8 :: goal where
  "goal_1_of_8 =
     sample_goal \<lparr> g_milestones := sample_milestone ''a'' True
                                    # replicate 7 (sample_milestone ''b'' False) \<rparr>"

definition sample_details :: details_state where
  "sample_details =
     \<lparr> gd_goalId = ''g1'', gd_user = Some ''u1'', gd_goal = Some sample_goal,
       gd_db = (\<lambda>k. if k = ''g1'' then Some sample_goal else None), gd_console = [] \<rparr>"

definition sample_list :: list_state where
  "sample_list =
     \<lparr> gl_user = Some ''u1'', gl_goals = [sample_goal],
       gl_db = (\<lambda>k. if k = ''g1'' then Some sample_goal else None), gl_console = [] \<rparr>"

definition sample_draft :: draft_goal where
  "sample_draft =
     initial_draft
       \<lparr> dg_title := Some (JStr ''Run 5k''),
         dg_milestones := Some
           [\<lparr> dm_id = ''old-1'', dm_title = Some (JStr ''Run 2k''), dm_description = None,
              dm_targetDate = Date 1750000000000, dm_completed = True, dm_frequency = None \<rparr>],
         dg_metrics := Some
           [\<lparr> dx_id = ''old-2'', dx_name = Some (JStr ''Weekly distance''),
              dx_type = Some (JStr ''number''), dx_target = Some (JNum 20), dx_current = MNum 7,
              dx_unit = None, dx_frequency = None,
              dx_history = [\<lparr> h_date = Date 1700000000000, h_value = MNum 7 \<rparr>] \<rparr>,
            \<lparr> dx_id = ''old-3'', dx_name = Some (JStr ''Rest day kept''),
              dx_type = Some (JStr ''boolean''), dx_target = Some (JBool True), dx_current = MBool True,
              dx_unit = None, dx_frequency = None, dx_history = [] \<rparr>] \<rparr>"

section \<open>Properties of the extraction\<close>

lemma map_uuid_length: "map_uuid f uuids n xs = Inr ys \<Longrightarrow> length ys = length xs"
  by (induction xs arbitrary: n ys) (auto split: sum.splits)

lemma toPrimitive_raises_truthy: "toPrimitive_raises j \<Longrightarrow> truthy (Some j)"
  by (cases j) simp_all

lemma date_raises_truthy: "date_raises v \<Longrightarrow> truthy v"
  by (cases v) (simp_all add: date_raises_def toPrimitive_raises_truthy)

lemma new_Date_cases:
  "new_Date newDate v = (if date_raises v then Inl TypeError else Inr (newDate v))"
  by (simp add: new_Date_def date_raises_def split: option.splits)

lemma extract_targetDate_cases:
  "extract_targetDate newDate v =
     (if date_raises v then Inl TypeError
      else Inr (if truthy v then Some (newDate v) else None))"
  using date_raises_truthy[of v] by (auto simp: extract_targetDate_def new_Date_cases)

lemma extract_milestone_ok:
  "(\<exists>y. extract_milestone newDate uid m = Inr y) \<longleftrightarrow> milestone_ok m"
  by (simp add: extract_milestone_def new_Date_cases milestone_ok_def)

lemma map_uuid_milestone_result:
  "case map_uuid (extract_milestone newDate) uuids n xs of
     Inl e \<Rightarrow> \<not> list_all milestone_ok xs | Inr ys \<Rightarrow> list_all milestone_ok xs"
proof (induction xs arbitrary: n)
  case Nil
  show ?case by simp
next
  case (Cons x xs)
  show ?case using Cons.IH[of "Suc n"] extract_milestone_ok[of newDate "uuids n" x]
    by (auto split: sum.splits)
qed

lemma map_uuid_metric_result:
  "case map_uuid extract_metric uuids n xs of
     Inl e \<Rightarrow> JNull \<in> set xs | Inr ys \<Rightarrow> JNull \<notin> set xs"
proof (induction xs arbitrary: n)
  case Nil
  show ?case by simp
next
  case (Cons x xs)
  show ?case using Cons.IH[of "Suc n"]
    by (auto simp: extract_metric_def split: sum.splits)
qed

lemma map_uuid_routine_result:
  "case map_uuid extract_routine uuids n xs of
     Inl e \<Rightarrow> JNull \<in> set xs | Inr ys \<Rightarrow> JNull \<notin> set xs"
proof (induction xs arbitrary: n)
  case Nil
  show ?case by simp
next
  case (Cons x xs)
  show ?case using Cons.IH[of "Suc n"]
    by (auto simp: extract_routine_def split: sum.splits)
qed

lemma map_uuid_milestone_ok:
  "(\<exists>ys. map_uuid (extract_milestone newDate) uuids n xs = Inr ys) \<longleftrightarrow> list_all milestone_ok xs"
  using map_uuid_milestone_result[where newDate=newDate and uuids=uuids and n=n and xs=xs] by (auto split: sum.splits)

lemma map_uuid_metric_ok:
  "(\<exists>ys. map_uuid extract_metric uuids n xs = Inr ys) \<longleftrightarrow> JNull \<notin> set xs"
  using map_uuid_metric_result[where uuids=uuids and n=n and xs=xs] by (auto split: sum.splits)

lemma map_uuid_routine_ok:
  "(\<exists>ys. map_uuid extract_routine uuids n xs = Inr ys) \<longleftrightarrow> JNull \<notin> set xs"
  using map_uuid_routine_result[where uuids=uuids and n=n and xs=xs] by (auto split: sum.splits)

lemma mappable_iff:
  "mappable v \<longleftrightarrow> (\<exists>xs. or_empty_array v = Inr xs \<and> JNull \<notin> set xs)"
  by (cases v rule: mappable.cases) auto

lemma mappable_milestones_iff:
  "mappable_milestones v \<longleftrightarrow> (\<exists>xs. or_empty_array v = Inr xs \<and> list_all milestone_ok xs)"
  by (cases v rule: mappable_milestones.cases) auto

lemma extractData_ok_iff:
  "(\<exists>d. extractData newDate uuids n j = Inr d) \<longleftrightarrow>
     j \<noteq> JNull \<and> \<not> date_raises (js_field j ''targetDate'')
       \<and> mappable_milestones (js_field j ''milestones'') \<and> mappable (js_field j ''metrics'')
       \<and> mappable (js_field j ''routines'')"
proof (cases "j = JNull")
  case True
  then show ?thesis by (simp add: extractData_def)
next
  case False
  show ?thesis
  proof
    assume "\<exists>d. extractData newDate uuids n j = Inr d"
    then obtain d where d: "extractData newDate uuids n j = Inr d" ..
    from d False obtain td where
      td: "extract_targetDate newDate (js_field j ''targetDate'') = Inr td"
      by (auto simp: extractData_def split: sum.splits)
    from d False td obtain ms where ms: "or_empty_array (js_field j ''milestones'') = Inr ms"
      by (auto simp: extractData_def split: sum.splits)
    from d False td ms obtain M where M: "map_uuid (extract_milestone newDate) uuids n ms = Inr M"
      by (auto simp: extractData_def split: sum.splits)
    from d False td ms M obtain xs where xs: "or_empty_array (js_field j ''metrics'') = Inr xs"
      by (auto simp: extractData_def split: sum.splits)
    from d False td ms M xs obtain X where X: "map_uuid extract_metric uuids (n + length ms) xs = Inr X"
      by (auto simp: extractData_def split: sum.splits)
    from d False td ms M xs X obtain rs where rs: "or_empty_array (js_field j ''routines'') = Inr rs"
      by (auto simp: extractData_def split: sum.splits)
    from d False td ms M xs X rs obtain R where
      R: "map_uuid extract_routine uuids (n + length ms + length xs) rs = Inr R"
      by (auto simp: extractData_def split: sum.splits)
    from td have "\<not> date_raises (js_field j ''targetDate'')"
      by (simp add: extract_targetDate_cases split: if_splits)
    moreover from M have "list_all milestone_ok ms" using map_uuid_milestone_ok by blast
    moreover from X have "JNull \<notin> set xs" using map_uuid_metric_ok by blast
    moreover from R have "JNull \<notin> set rs" using map_uuid_routine_ok by blast
    ultimately show "j \<noteq> JNull \<and> \<not> date_raises (js_field j ''targetDate'')
       \<and> mappable_milestones (js_field j ''milestones'') \<and> mappable (js_field j ''metrics'')
       \<and> mappable (js_field j ''routines'')"
      using False ms xs rs by (auto simp: mappable_iff mappable_milestones_iff)
  next
    assume a: "j \<noteq> JNull \<and> \<not> date_raises (js_field j ''targetDate'')
       \<and> mappable_milestones (js_field j ''milestones'') \<and> mappable (js_field j ''metrics'')
       \<and> mappable (js_field j ''routines'')"
    then obtain ms xs rs where
      ms: "or_empty_array (js_field j ''milestones'') = Inr ms" "list_all milestone_ok ms" and
      xs: "or_empty_array (js_field j ''metrics'') = Inr xs" "JNull \<notin> set xs" and
      rs: "or_empty_array (js_field j ''routines'') = Inr rs" "JNull \<notin> set rs"
      by (auto simp: mappable_iff mappable_milestones_iff)
    from a obtain td where
      td: "extract_targetDate newDate (js_field j ''targetDate'') = Inr td"
      by (simp add: extract_targetDate_cases)
    from ms(2) obtain M where M: "map_uuid (extract_milestone newDate) uuids n ms = Inr M"
      using map_uuid_milestone_ok by blast
    from xs(2) obtain X where X: "map_uuid extract_metric uuids (n + length ms) xs = Inr X"
      using map_uuid_metric_ok by blast
    from rs(2) obtain R where R: "map_uuid extract_routine uuids (n + length ms + length xs) rs = Inr R"
      using map_uuid_routine_ok by blast
    show "\<exists>d. extractData newDate uuids n j = Inr d"
      using False td ms(1) xs(1) rs(1) M X R by (simp add: extractData_def)
  qed
qed

lemma trim_Nil: "trim [] = []"
  by (simp add: trim_def)

lemma every_required_iff:
  "every_required j ks = Inr True \<longleftrightarrow> list_all (present_and_non_blank j) ks"
proof (induction ks)
  case Nil
  show ?case by simp
next
  case (Cons k ks)
  show ?case
  proof (cases "js_field j k")
    case None
    then show ?thesis by (simp add: present_and_non_blank_def)
  next
    case (Some v)
    then show ?thesis using Cons.IH
      by (cases v) (auto simp: present_and_non_blank_def trim_Nil)
  qed
qed

lemma conversationComplete_iff:
  "conversationComplete (processConversation newDate uuids n (Some p) (Parsed j)) \<longleftrightarrow>
     (\<exists>d. extractData newDate uuids n j = Inr d) \<and> list_all (present_and_non_blank j) requiredFields"
  using every_required_iff[of j requiredFields]
  by (auto simp: processConversation_def split: sum.splits)

lemma or_empty_array_reply_array:
  "or_empty_array (js_field j k) = Inr xs \<Longrightarrow> xs = reply_array j k"
  by (cases "js_field j k" rule: or_empty_array.cases) (auto simp: reply_array_def split: if_splits)

lemma truthy_or_empty: "truthy (js_or v (Some (JArr [])))"
  by (simp add: js_or_def)

lemma js_or_truthy: "truthy x \<Longrightarrow> js_or x y = x"
  by (simp add: js_or_def)

lemma replaced_by_reply_js_or: "replaced_by_reply j k (js_or (js_field j k) (Some (JArr [])))"
  by (simp add: replaced_by_reply_def js_or_def split: option.splits json.splits)

lemma extractData_shape:
  assumes "extractData newDate uuids n j = Inr d"
  shows "\<exists>M X R.
     map_uuid (extract_milestone newDate) uuids n (reply_array j ''milestones'') = Inr M
   \<and> map_uuid extract_metric uuids (n + length M) (reply_array j ''metrics'') = Inr X
   \<and> map_uuid extract_routine uuids (n + length M + length X) (reply_array j ''routines'') = Inr R
   \<and> dg_milestones d = Some M \<and> dg_metrics d = Some X \<and> dg_routines d = Some R
   \<and> dg_weeklyActions d = js_or (js_field j ''weeklyActions'') (Some (JArr []))
   \<and> dg_dailyHabits d = js_or (js_field j ''dailyHabits'') (Some (JArr []))
   \<and> dg_resources d = js_or (js_field j ''resources'') (Some (JArr []))
   \<and> dg_obstacles d = js_or (js_field j ''obstacles'') (Some (JArr []))
   \<and> dg_successCriteria d = js_or (js_field j ''successCriteria'') (Some (JArr []))"
proof -
  from assms have nn: "j \<noteq> JNull" by (auto simp: extractData_def split: if_splits)
  from assms nn obtain td where
    td: "extract_targetDate newDate (js_field j ''targetDate'') = Inr td"
    by (auto simp: extractData_def split: sum.splits)
  from assms nn td obtain ms where ms: "or_empty_array (js_field j ''milestones'') = Inr ms"
    by (auto simp: extractData_def split: sum.splits)
  from assms nn td ms obtain M where M: "map_uuid (extract_milestone newDate) uuids n ms = Inr M"
    by (auto simp: extractData_def split: sum.splits)
  from assms nn td ms M obtain xs where xs: "or_empty_array (js_field j ''metrics'') = Inr xs"
    by (auto simp: extractData_def split: sum.splits)
  from assms nn td ms M xs obtain X where X: "map_uuid extract_metric uuids (n + length ms) xs = Inr X"
    by (auto simp: extractData_def split: sum.splits)
  from assms nn td ms M xs X obtain rs where rs: "or_empty_array (js_field j ''routines'') = Inr rs"
    by (auto simp: extractData_def split: sum.splits)
  from assms nn td ms M xs X rs obtain R where
    R: "map_uuid extract_routine uuids (n + length ms + length xs) rs = Inr R"
    by (auto simp: extractData_def split: sum.splits)
  have lens: "length M = length ms" "length X = length xs"
    using M X by (auto dest: map_uuid_length)
  have eqs: "ms = reply_array j ''milestones''" "xs = reply_array j ''metrics''"
    "rs = reply_array j ''routines''"
    using ms xs rs by (auto dest: or_empty_array_reply_array)
  from assms nn td ms M xs X rs R have d: "d =
          \<lparr> dg_title = js_field j ''title'',
            dg_description = js_field j ''description'',
            dg_domain = js_field j ''domain'',
            dg_targetDate = td,
            dg_status = Some ''active'',
            dg_milestones = Some M,
            dg_metrics = Some X,
            dg_weeklyActions = js_or (js_field j ''weeklyActions'') (Some (JArr [])),
            dg_dailyHabits = js_or (js_field j ''dailyHabits'') (Some (JArr [])),
            dg_routines = Some R,
            dg_resources = js_or (js_field j ''resources'') (Some (JArr [])),
            dg_obstacles = js_or (js_field j ''obstacles'') (Some (JArr [])),
            dg_successCriteria = js_or (js_field j ''successCriteria'') (Some (JArr [])),
            dg_reflections = Some [] \<rparr>"
    by (simp add: extractData_def)
  show ?thesis
    using M X R lens eqs by (simp add: d)
qed

lemma mergeExtracted_extracted:
  assumes "extractData newDate uuids n j = Inr d"
  shows "mergeExtracted prev (Some d) = d"
proof -
  from extractData_shape[OF assms] obtain M X R where
    "dg_milestones d = Some M" "dg_metrics d = Some X" "dg_routines d = Some R"
    "dg_weeklyActions d = js_or (js_field j ''weeklyActions'') (Some (JArr []))"
    "dg_dailyHabits d = js_or (js_field j ''dailyHabits'') (Some (JArr []))"
    "dg_resources d = js_or (js_field j ''resources'') (Some (JArr []))"
    "dg_obstacles d = js_or (js_field j ''obstacles'') (Some (JArr []))"
    "dg_successCriteria d = js_or (js_field j ''successCriteria'') (Some (JArr []))"
    by blast
  then show ?thesis
    by (simp add: mergeExtracted_def or_list_def js_or_truthy truthy_or_empty)
qed

lemma mergeExtracted_none: "mergeExtracted prev None = prev"
  by (simp add: mergeExtracted_def or_list_def js_or_def)

lemma input_nonblank: "trim ''I also want to sleep more'' \<noteq> []"
  by (simp add: trim_def is_space_def)

text \<open>
  Claim C1, as stated, fails: a reply that parses and has no \<open>weeklyActions\<close> member does not
  leave the accumulated weekly actions intact. \<open>processConversation\<close> turns the absent member
  into the empty array, the empty array is truthy, so \<^verbatim>\<open>extractedData.weeklyActions || prev.weeklyActions\<close>
  is the empty array.
\<close>

theorem freeform_absent_collection_cleared:
  "js_field reply_without_actions ''weeklyActions'' = None
   \<and> dg_weeklyActions (cs_goalData chat_with_actions) = Some (JArr [JStr ''Run three times''])
   \<and> dg_weeklyActions (cs_goalData (freeform_handleSendMessage (\<lambda>v. InvalidDate) (\<lambda>i. []) 0
         (Some ''Tell me more.'') (Parsed reply_without_actions) chat_with_actions)) = Some (JArr [])
   \<and> dg_weeklyActions (cs_goalData (freeform_handleSendMessage (\<lambda>v. InvalidDate) (\<lambda>i. []) 0
         (Some ''Tell me more.'') (Parsed reply_without_actions) chat_with_actions))
       \<noteq> dg_weeklyActions (cs_goalData chat_with_actions)"
  by (simp add: reply_without_actions_def chat_with_actions_def initial_draft_def
      freeform_handleSendMessage_def processConversation_def extractData_def
      extract_targetDate_def requiredFields_def
      mergeExtracted_def or_list_def js_or_def trim_def is_space_def)

text \<open>
  Claim C1, amended. After a non-blank message sent while no request is pending: when the
  reply parses and the transform raises no error, the accumulated goal is the extracted one,
  whatever it held before. Milestones, metrics and routines are the transform of the
  reply's array (of the empty array when the reply has none); each plain list is the
  reply's array, or the empty array when the member is absent. The accumulated goal is
  left intact only when the transform raises or the reply does not parse.
\<close>

theorem freeform_collections_last_write_wins:
  assumes "trim (cs_input s) \<noteq> []" and "\<not> cs_isProcessing s"
  shows "(\<forall>d. extractData newDate uuids n parsedData = Inr d \<longrightarrow>
           (let g = cs_goalData (freeform_handleSendMessage newDate uuids n (Some prompt)
                       (Parsed parsedData) s)
            in g = d
             \<and> (\<exists>M X R.
                   dg_milestones g = Some M \<and> dg_metrics g = Some X \<and> dg_routines g = Some R
                 \<and> map_uuid (extract_milestone newDate) uuids n (reply_array parsedData ''milestones'') = Inr M
                 \<and> map_uuid extract_metric uuids (n + length M) (reply_array parsedData ''metrics'') = Inr X
                 \<and> map_uuid extract_routine uuids (n + length M + length X)
                      (reply_array parsedData ''routines'') = Inr R)
             \<and> replaced_by_reply parsedData ''weeklyActions'' (dg_weeklyActions g)
             \<and> replaced_by_reply parsedData ''dailyHabits'' (dg_dailyHabits g)
             \<and> replaced_by_reply parsedData ''resources'' (dg_resources g)
             \<and> replaced_by_reply parsedData ''obstacles'' (dg_obstacles g)
             \<and> replaced_by_reply parsedData ''successCriteria'' (dg_successCriteria g)))
       \<and> ((\<exists>e. extractData newDate uuids n parsedData = Inl e) \<longrightarrow>
            cs_goalData (freeform_handleSendMessage newDate uuids n (Some prompt) (Parsed parsedData) s)
              = cs_goalData s)
       \<and> cs_goalData (freeform_handleSendMessage newDate uuids n (Some prompt) Unparseable s)
              = cs_goalData s"
proof (intro conjI allI impI)
  fix d assume d: "extractData newDate uuids n parsedData = Inr d"
  have g: "cs_goalData (freeform_handleSendMessage newDate uuids n (Some prompt) (Parsed parsedData) s) = d"
    using assms d mergeExtracted_extracted[OF d]
    by (simp add: freeform_handleSendMessage_def processConversation_def Let_def split: sum.splits)
  from extractData_shape[OF d] obtain M X R where sh:
    "map_uuid (extract_milestone newDate) uuids n (reply_array parsedData ''milestones'') = Inr M"
    "map_uuid extract_metric uuids (n + length M) (reply_array parsedData ''metrics'') = Inr X"
    "map_uuid extract_routine uuids (n + length M + length X) (reply_array parsedData ''routines'') = Inr R"
    "dg_milestones d = Some M" "dg_metrics d = Some X" "dg_routines d = Some R"
    "dg_weeklyActions d = js_or (js_field parsedData ''weeklyActions'') (Some (JArr []))"
    "dg_dailyHabits d = js_or (js_field parsedData ''dailyHabits'') (Some (JArr []))"
    "dg_resources d = js_or (js_field parsedData ''resources'') (Some (JArr []))"
    "dg_obstacles d = js_or (js_field parsedData ''obstacles'') (Some (JArr []))"
    "dg_successCriteria d = js_or (js_field parsedData ''successCriteria'') (Some (JArr []))"
    by blast
  show "let g = cs_goalData (freeform_handleSendMessage newDate uuids n (Some prompt)
                       (Parsed parsedData) s)
            in g = d
             \<and> (\<exists>M X R.
                   dg_milestones g = Some M \<and> dg_metrics g = Some X \<and> dg_routines g = Some R
                 \<and> map_uuid (extract_milestone newDate) uuids n (reply_array parsedData ''milestones'') = Inr M
                 \<and> map_uuid extract_metric uuids (n + length M) (reply_array parsedData ''metrics'') = Inr X
                 \<and> map_uuid extract_routine uuids (n + length M + length X)
                      (reply_array parsedData ''routines'') = Inr R)
             \<and> replaced_by_reply parsedData ''weeklyActions'' (dg_weeklyActions g)
             \<and> replaced_by_reply parsedData ''dailyHabits'' (dg_dailyHabits g)
             \<and> replaced_by_reply parsedData ''resources'' (dg_resources g)
             \<and> replaced_by_reply parsedData ''obstacles'' (dg_obstacles g)
             \<and> replaced_by_reply parsedData ''successCriteria'' (dg_successCriteria g)"
    unfolding Let_def g using sh by (simp add: replaced_by_reply_js_or)
next
  assume "\<exists>e. extractData newDate uuids n parsedData = Inl e"
  then show "cs_goalData (freeform_handleSendMessage newDate uuids n (Some prompt) (Parsed parsedData) s)
              = cs_goalData s"
    using assms
    by (auto simp: freeform_handleSendMessage_def processConversation_def Let_def mergeExtracted_none)
next
  show "cs_goalData (freeform_handleSendMessage newDate uuids n (Some prompt) Unparseable s)
              = cs_goalData s"
    using assms
    by (simp add: freeform_handleSendMessage_def processConversation_def Let_def mergeExtracted_none)
qed

theorem freeform_collections_last_write_wins_witness:
  "dg_weeklyActions (cs_goalData (freeform_handleSendMessage (\<lambda>v. InvalidDate) (\<lambda>i. []) 0
      (Some ''Tell me more.'') (Parsed reply_with_actions) chat_with_actions))
     = Some (JArr [JStr ''Lights out at ten''])
   \<and> dg_milestones (cs_goalData (freeform_handleSendMessage (\<lambda>v. InvalidDate) (\<lambda>i. []) 0
      (Some ''Tell me more.'') (Parsed reply_with_actions) chat_with_actions)) = Some []"
proof -
  have a: "trim (cs_input chat_with_actions) \<noteq> []"
    by (simp add: chat_with_actions_def input_nonblank)
  have b: "\<not> cs_isProcessing chat_with_actions"
    by (simp add: chat_with_actions_def)
  have c: "\<exists>d. extractData (\<lambda>v. InvalidDate) (\<lambda>i. []) 0 reply_with_actions = Inr d"
    by (simp add: extractData_def extract_targetDate_def reply_with_actions_def)
  then obtain d where d: "extractData (\<lambda>v. InvalidDate) (\<lambda>i. []) 0 reply_with_actions = Inr d" ..
  show ?thesis
    using freeform_collections_last_write_wins[OF a b, of "\<lambda>v. InvalidDate" "\<lambda>i. []" 0
        reply_with_actions "''Tell me more.''"] d
    by (auto simp: Let_def replaced_by_reply_def reply_array_def reply_with_actions_def)
qed

text \<open>
  Claim C2, as stated, fails: with title, description and domain all present and non-blank,
  a reply whose \<open>milestones\<close> member is a string makes the transform raise before the
  completeness test is reached, and \<open>conversationComplete\<close> stays false. So does a reply
  whose \<open>targetDate\<close> is an object from which \<^verbatim>\<open>new Date\<close> cannot build a date.
\<close>

theorem conversationComplete_counterexample:
  "present_and_non_blank run5k_text_milestones ''title''
   \<and> present_and_non_blank run5k_text_milestones ''description''
   \<and> present_and_non_blank run5k_text_milestones ''domain''
   \<and> \<not> conversationComplete
         (processConversation (\<lambda>v. InvalidDate) (\<lambda>i. []) 0 (Some ''Tell me more.'')
            (Parsed run5k_text_milestones))
   \<and> present_and_non_blank run5k_unreadable_date ''title''
   \<and> present_and_non_blank run5k_unreadable_date ''description''
   \<and> present_and_non_blank run5k_unreadable_date ''domain''
   \<and> \<not> conversationComplete
         (processConversation (\<lambda>v. InvalidDate) (\<lambda>i. []) 0 (Some ''Tell me more.'')
            (Parsed run5k_unreadable_date))"
  by (simp add: run5k_text_milestones_def run5k_unreadable_date_def present_and_non_blank_def
      processConversation_def extractData_def extract_targetDate_def new_Date_def
      trim_def is_space_def)

text \<open>
  Claim C2, amended. For a reply that parses, \<open>conversationComplete\<close> is true exactly when
  building \<open>extractedData\<close> from the reply raises no error and title, description and domain
  are all present and non-blank. Building raises no error exactly when the reply is not
  \<^verbatim>\<open>null\<close>; its \<open>targetDate\<close> is not an object with a member \<open>toString\<close> nor an array that holds
  such an object at any depth; milestones, metrics and routines are each falsy or an array
  without \<^verbatim>\<open>null\<close> entries; and no milestone has a \<open>targetDate\<close> of that kind. A reply that does
  not parse gives false, and so does a call in which either request fails. The reply
  \<open>run5k\<close> gives true, and the same reply without domain gives false.
\<close>

theorem conversationComplete_iff_required_fields:
  "(conversationComplete (processConversation newDate uuids n (Some prompt) (Parsed parsedData)) \<longleftrightarrow>
      parsedData \<noteq> JNull
      \<and> \<not> date_raises (js_field parsedData ''targetDate'')
      \<and> mappable_milestones (js_field parsedData ''milestones'')
      \<and> mappable (js_field parsedData ''metrics'')
      \<and> mappable (js_field parsedData ''routines'')
      \<and> present_and_non_blank parsedData ''title''
      \<and> present_and_non_blank parsedData ''description''
      \<and> present_and_non_blank parsedData ''domain'')
   \<and> \<not> conversationComplete (processConversation newDate uuids n (Some prompt) Unparseable)
   \<and> \<not> conversationComplete (processConversation newDate uuids n (Some prompt) Rejected)
   \<and> \<not> conversationComplete (processConversation newDate uuids n None extractionReply)
   \<and> conversationComplete (processConversation newDate uuids n (Some prompt) (Parsed run5k))
   \<and> \<not> conversationComplete
         (processConversation newDate uuids n (Some prompt) (Parsed run5k_without_domain))"
proof -
  have iff: "conversationComplete (processConversation newDate uuids n (Some prompt) (Parsed j)) \<longleftrightarrow>
      j \<noteq> JNull
      \<and> \<not> date_raises (js_field j ''targetDate'')
      \<and> mappable_milestones (js_field j ''milestones'')
      \<and> mappable (js_field j ''metrics'')
      \<and> mappable (js_field j ''routines'')
      \<and> present_and_non_blank j ''title''
      \<and> present_and_non_blank j ''description''
      \<and> present_and_non_blank j ''domain''" for j
    using conversationComplete_iff[of newDate uuids n prompt j]
          extractData_ok_iff[of newDate uuids n j]
    by (auto simp: requiredFields_def)
  have a: "\<not> conversationComplete (processConversation newDate uuids n (Some prompt) Unparseable)"
    by (simp add: processConversation_def)
  have a': "\<not> conversationComplete (processConversation newDate uuids n (Some prompt) Rejected)"
    by (simp add: processConversation_def)
  have a'': "\<not> conversationComplete (processConversation newDate uuids n None extractionReply)"
    by (simp add: processConversation_def)
  have b: "conversationComplete (processConversation newDate uuids n (Some prompt) (Parsed run5k))"
    unfolding iff
    by (simp add: run5k_def present_and_non_blank_def date_raises_def trim_def is_space_def)
  have c: "\<not> conversationComplete
         (processConversation newDate uuids n (Some prompt) (Parsed run5k_without_domain))"
    unfolding iff by (simp add: run5k_without_domain_def present_and_non_blank_def)
  show ?thesis using iff[of parsedData] a a' a'' b c by blast
qed

theorem conversationComplete_iff_required_fields_witness:
  "\<not> conversationComplete
       (processConversation (\<lambda>v. InvalidDate) (\<lambda>i. []) 0 (Some ''Tell me more.'')
          (Parsed (JObj [(''title'', JStr ''Run 5k''), (''description'', JStr [CHR 0x20]),
                         (''domain'', JStr ''health'')])))
   \<and> conversationComplete
       (processConversation (\<lambda>v. InvalidDate) (\<lambda>i. []) 0 (Some ''Tell me more.'')
          (Parsed (JObj [(''title'', JStr ''Run 5k''), (''description'', JStr ''x''),
                         (''domain'', JStr ''health''),
                         (''milestones'', JArr [JObj [(''title'', JStr ''Run 2k'')]])])))"
proof -
  have "\<not> conversationComplete
       (processConversation (\<lambda>v. InvalidDate) (\<lambda>i. []) 0 (Some ''Tell me more.'')
          (Parsed (JObj [(''title'', JStr ''Run 5k''), (''description'', JStr [CHR 0x20]),
                         (''domain'', JStr ''health'')])))"
    using conversationComplete_iff_required_fields[of "\<lambda>v. InvalidDate" "\<lambda>i. []" 0 "''Tell me more.''"
      "JObj [(''title'', JStr ''Run 5k''), (''description'', JStr [CHR 0x20]),
             (''domain'', JStr ''health'')]" Rejected]
    by (simp add: present_and_non_blank_def trim_def is_space_def)
  moreover have "conversationComplete
       (processConversation (\<lambda>v. InvalidDate) (\<lambda>i. []) 0 (Some ''Tell me more.'')
          (Parsed (JObj [(''title'', JStr ''Run 5k''), (''description'', JStr ''x''),
                         (''domain'', JStr ''health''),
                         (''milestones'', JArr [JObj [(''title'', JStr ''Run 2k'')]])])))"
    using conversationComplete_iff_required_fields[of "\<lambda>v. InvalidDate" "\<lambda>i. []" 0 "''Tell me more.''"
      "JObj [(''title'', JStr ''Run 5k''), (''description'', JStr ''x''),
             (''domain'', JStr ''health''),
             (''milestones'', JArr [JObj [(''title'', JStr ''Run 2k'')]])]" Rejected]
    by (simp add: present_and_non_blank_def date_raises_def milestone_ok_def trim_def is_space_def)
  ultimately show ?thesis by (rule conjI)
qed

section \<open>Properties of the guided dialog\<close>

lemma trim_empty_iff: "trim s = [] \<longleftrightarrow> (\<forall>c \<in> set s. is_space c)"
proof -
  have "trim s = [] \<longleftrightarrow> (\<forall>c \<in> set (dropWhile is_space s). is_space c)"
    by (simp add: trim_def dropWhile_eq_Nil_conv)
  also have "\<dots> \<longleftrightarrow> dropWhile is_space s = []"
  proof
    assume a: "\<forall>c \<in> set (dropWhile is_space s). is_space c"
    show "dropWhile is_space s = []"
    proof (rule ccontr)
      assume ne: "dropWhile is_space s \<noteq> []"
      then have "\<not> is_space (hd (dropWhile is_space s))" by (rule hd_dropWhile)
      moreover from ne have "hd (dropWhile is_space s) \<in> set (dropWhile is_space s)" by simp
      ultimately show False using a by blast
    qed
  qed (auto dest: set_dropWhileD)
  also have "\<dots> \<longleftrightarrow> (\<forall>c \<in> set s. is_space c)"
    by (simp add: dropWhile_eq_Nil_conv)
  finally show ?thesis .
qed

lemma toLowerCase_tags: "map toLowerCase domainTags = domainTags"
  by (simp add: domainTags_def toLowerCase_def lower_char_def)

lemma matches_domain_tag_iff: "matches_domain_tag input \<longleftrightarrow> toLowerCase input \<in> set domainTags"
proof -
  have "matches_domain_tag input \<longleftrightarrow> toLowerCase input \<in> set (map toLowerCase domainTags)"
    by (auto simp: matches_domain_tag_def)
  then show ?thesis by (simp add: toLowerCase_tags)
qed

lemma lower_char_space: "is_space c \<Longrightarrow> lower_char c = c"
  by (auto simp: is_space_def lower_char_def Let_def)

lemma matches_domain_tag_nonblank:
  assumes "matches_domain_tag input"
  shows "trim input \<noteq> []"
proof
  assume "trim input = []"
  then have sp: "\<forall>c \<in> set input. is_space c" by (simp add: trim_empty_iff)
  then have "toLowerCase input = input"
    by (simp add: toLowerCase_def lower_char_space map_idI)
  with assms have "input \<in> set domainTags" by (simp add: matches_domain_tag_iff)
  with sp show False by (auto simp: domainTags_def is_space_def)
qed

text \<open>
  Claim C4, as stated, fails for a blank input: the handler returns at once, so the step
  and the goal are unchanged, but no corrective message is posted either.
\<close>

theorem guided_step1_blank_input_counterexample:
  "gs_currentStep guided_initial = 1
   \<and> \<not> matches_domain_tag (gs_input guided_initial)
   \<and> gs_messages (guided_handleSendMessage_case1 ''Great choice!'' guided_initial)
       = gs_messages guided_initial
   \<and> assistant correctiveMessage
       \<notin> set (gs_messages (guided_handleSendMessage_case1 ''Great choice!'' guided_initial))"
  by (simp add: guided_initial_def matches_domain_tag_iff toLowerCase_def domainTags_def
      guided_handleSendMessage_case1_def guided_prologue_def trim_def assistant_def
      correctiveMessage_def)

text \<open>
  Claim C4, amended. At step 1, for every input: the dialog moves to step 2 and records the
  lowercased input as the domain exactly when the input matches one of the seven tags
  case-insensitively. For every other input the step stays 1, the accumulated goal is
  unchanged and the heading is still the first question; when that input is not blank, the
  user's message and the corrective message are appended to the transcript; a blank input
  changes nothing at all.
\<close>

theorem guided_step1_domain:
  assumes "gs_currentStep s = 1"
  shows "let s' = guided_handleSendMessage_case1 aiResponse s in
     ((gs_currentStep s' = 2 \<and> pg_domain (gs_goalData s') = Some (toLowerCase (gs_input s)))
        \<longleftrightarrow> matches_domain_tag (gs_input s))
     \<and> (matches_domain_tag (gs_input s) \<longrightarrow>
          gs_goalData s' = (gs_goalData s) \<lparr> pg_domain := Some (toLowerCase (gs_input s)) \<rparr>
          \<and> gs_messages s' = gs_messages s
               @ [\<lparr> msg_role = ''user'', msg_content = gs_input s \<rparr>, assistant aiResponse])
     \<and> (\<not> matches_domain_tag (gs_input s) \<longrightarrow>
          gs_currentStep s' = 1
          \<and> gs_goalData s' = gs_goalData s
          \<and> currentQuestion s' = Some (questions ! 0))
     \<and> (\<not> matches_domain_tag (gs_input s) \<and> trim (gs_input s) \<noteq> [] \<longrightarrow>
          gs_messages s' = gs_messages s
               @ [\<lparr> msg_role = ''user'', msg_content = gs_input s \<rparr>, assistant correctiveMessage])
     \<and> (trim (gs_input s) = [] \<longrightarrow> s' = s)"
proof (cases "matches_domain_tag (gs_input s)")
  case True
  then have nb: "trim (gs_input s) \<noteq> []" by (rule matches_domain_tag_nonblank)
  from True have "toLowerCase (gs_input s) \<in> set domainTags" by (simp add: matches_domain_tag_iff)
  with True nb show ?thesis
    by (simp add: guided_handleSendMessage_case1_def guided_prologue_def Let_def)
next
  case False
  then have notin: "toLowerCase (gs_input s) \<notin> set domainTags" by (simp add: matches_domain_tag_iff)
  have q: "currentQuestion s = Some (questions ! 0)"
    using assms by (simp add: currentQuestion_def questions_def)
  show ?thesis
  proof (cases "trim (gs_input s) = []")
    case True
    with False q assms show ?thesis
      by (simp add: guided_handleSendMessage_case1_def guided_prologue_def Let_def)
  next
    case nb: False
    with False notin assms show ?thesis
      by (simp add: guided_handleSendMessage_case1_def guided_prologue_def Let_def
          currentQuestion_def questions_def)
  qed
qed

theorem guided_step1_domain_witness:
  "gs_currentStep (guided_handleSendMessage_case1 ''Great choice!''
      (guided_initial \<lparr> gs_input := ''Health'' \<rparr>)) = 2
   \<and> pg_domain (gs_goalData (guided_handleSendMessage_case1 ''Great choice!''
      (guided_initial \<lparr> gs_input := ''Health'' \<rparr>))) = Some ''health''"
proof -
  have a: "gs_currentStep (guided_initial \<lparr> gs_input := ''Health'' \<rparr>) = 1"
    by (simp add: guided_initial_def)
  have m: "matches_domain_tag ''Health''"
    by code_simp
  have l: "toLowerCase ''Health'' = ''health''"
    by code_simp
  show ?thesis
    using guided_step1_domain[OF a, of "''Great choice!''"] m l
    by (simp add: Let_def)
qed

lemma map_ids_map: "map_ids f uuids n xs = map (\<lambda>(i, x). f (uuids (n + i)) x) (enumerate 0 xs)"
proof (induction xs arbitrary: n)
  case Nil
  show ?case by simp
next
  case (Cons x xs)
  have "map (\<lambda>(i, x). f (uuids (n + i)) x) (enumerate (Suc 0) xs)
      = map (\<lambda>(i, x). f (uuids (Suc n + i)) x) (enumerate 0 xs)"
    by (simp add: enumerate_Suc_eq map_prod_def split_def o_def)
  with Cons.IH[of "Suc n"] show ?case by simp
qed

lemma length_map_ids: "length (map_ids f uuids n xs) = length xs"
  by (simp add: map_ids_map)

lemma nth_map_ids: "i < length xs \<Longrightarrow> map_ids f uuids n xs ! i = f (uuids (n + i)) (xs ! i)"
  by (simp add: map_ids_map nth_enumerate_eq)

lemma guided_step5_milestone_dates:
  assumes "trim (gs_input s) \<noteq> []" and "pg_targetDate (gs_goalData s) = Some target"
  shows "\<exists>s' ms. guided_handleSendMessage_case5 uuids n aiResponse s = Inr s'
           \<and> pg_milestones (gs_goalData s') = Some ms
           \<and> length ms = length (split_on CHR '','' (gs_input s))
           \<and> list_all (\<lambda>m. ms_targetDate m = half_date target) ms"
  using assms
  by (simp add: guided_handleSendMessage_case5_def guided_prologue_def Let_def length_map_ids
      list_all_length nth_map_ids step5_milestone_def)

text \<open>
  Claim C3 does not hold of the code. Step 5 never reads the clock: every milestone gets
  the date whose time value is half the target date's time value, counted from the epoch
  (\<open>guided_step5_milestone_dates\<close>). With the target date 1800000000000 and the answer
  \<open>Run 2k, Run 4k\<close> both milestones are dated 900000000000, whereas \<open>N + 0.5 * (T - N)\<close> at
  the time 1790000000000 is 1795000000000.
\<close>

theorem guided_step5_milestone_date_at_failing_input:
  "(case guided_handleSendMessage_case5 (\<lambda>i. []) 0 ''Nice.'' guided_at_step5 of
      Inl e \<Rightarrow> None
    | Inr s' \<Rightarrow> map_option (map ms_targetDate) (pg_milestones (gs_goalData s')))
     = Some [Date 900000000000, Date 900000000000]
   \<and> midpoint_date 1790000000000 1800000000000 = Date 1795000000000"
  by (simp add: guided_at_step5_def guided_initial_def initial_partial_goal_def
      guided_handleSendMessage_case5_def guided_prologue_def trim_def is_space_def
      step5_milestone_def midpoint_date_def)

section \<open>Properties of the goal views\<close>

lemma updateDoc_write_fails:
  "\<not> write_succeeds accepted s \<Longrightarrow> updateDoc accepted (gd_db s) (gd_goalId s) upd = Inl WriteError"
  by (auto simp: updateDoc_def write_succeeds_def split: option.splits)

lemma updateDoc_write_succeeds:
  "write_succeeds accepted s \<Longrightarrow>
     updateDoc accepted (gd_db s) (gd_goalId s) upd
       = Inr ((gd_db s) (gd_goalId s := Some (upd (the (gd_db s (gd_goalId s))))))"
  by (auto simp: updateDoc_def write_succeeds_def)

lemma updateGoalStatus_rejected:
  assumes "gd_user s = Some user" and "gd_goal s = Some goal" and "\<not> write_succeeds accepted s"
  shows "updateGoalStatus accepted now status s
           = s \<lparr> gd_console := gd_console s @ [''Error updating goal status:''] \<rparr>"
  unfolding updateGoalStatus_def by (simp add: assms updateDoc_write_fails)

lemma updateGoalStatus_accepted:
  assumes "gd_user s = Some user" and "gd_goal s = Some goal" and "write_succeeds accepted s"
  shows "gd_goal (updateGoalStatus accepted now status s) = Some (goal \<lparr> g_status := status \<rparr>)"
  unfolding updateGoalStatus_def by (simp add: assms updateDoc_write_succeeds)

lemma toggleMilestone_rejected:
  assumes "gd_user s = Some user" and "gd_goal s = Some goal" and "\<not> write_succeeds accepted s"
  shows "toggleMilestone accepted now milestoneId completed s
           = s \<lparr> gd_console := gd_console s @ [''Error updating milestone:''] \<rparr>"
  unfolding toggleMilestone_def Let_def by (simp add: assms updateDoc_write_fails)

lemma toggleMilestone_accepted:
  assumes "gd_user s = Some user" and "gd_goal s = Some goal" and "write_succeeds accepted s"
  shows "gd_goal (toggleMilestone accepted now milestoneId completed s)
           = Some (goal \<lparr> g_milestones := map (toggle_one now milestoneId completed) (g_milestones goal) \<rparr>)"
  unfolding toggleMilestone_def Let_def by (simp add: assms updateDoc_write_succeeds)

lemma updateMetric_rejected:
  assumes "gd_user s = Some user" and "gd_goal s = Some goal" and "\<not> write_succeeds accepted s"
  shows "updateMetric accepted now metricId v s
           = s \<lparr> gd_console := gd_console s @ [''Error updating metric:''] \<rparr>"
  unfolding updateMetric_def Let_def by (simp add: assms updateDoc_write_fails)

lemma updateMetric_accepted:
  assumes "gd_user s = Some user" and "gd_goal s = Some goal" and "write_succeeds accepted s"
  shows "updateMetric accepted now metricId v s
           = s \<lparr> gd_db := (gd_db s) (gd_goalId s := Some ((the (gd_db s (gd_goalId s)))
                      \<lparr> g_metrics := map (update_one now metricId v) (g_metrics goal),
                        g_updatedAt := Date now \<rparr>)),
                 gd_goal := Some (goal \<lparr> g_metrics := map (update_one now metricId v) (g_metrics goal) \<rparr>) \<rparr>"
  unfolding updateMetric_def Let_def by (simp add: assms updateDoc_write_succeeds)

lemma addReflection_rejected:
  assumes "gd_user s = Some user" and "gd_goal s = Some goal" and "\<not> write_succeeds accepted s"
  shows "addReflection accepted now uid r s
           = s \<lparr> gd_console := gd_console s @ [''Error adding reflection:''] \<rparr>"
  unfolding addReflection_def Let_def by (simp add: assms updateDoc_write_fails)

lemma addReflection_accepted:
  assumes "gd_user s = Some user" and "gd_goal s = Some goal" and "write_succeeds accepted s"
  shows "gd_goal (addReflection accepted now uid r s)
           = Some (goal \<lparr> g_reflections := g_reflections goal @ [r \<lparr> rf_id := uid, rf_userId := user \<rparr>] \<rparr>)"
  unfolding addReflection_def Let_def by (simp add: assms updateDoc_write_succeeds)

text \<open>
  Claim C5, as stated, fails: when the write is rejected, the status change is logged and
  the local goal keeps its old status. \<open>setGoal\<close> stands after the awaited write, so there
  is no optimistic update to keep or to roll back.
\<close>

theorem status_change_lost_when_write_fails:
  "map_option g_status (gd_goal sample_details) = Some ''active''
   \<and> map_option g_status (gd_goal (updateGoalStatus False 1760000000000 ''completed'' sample_details))
       = Some ''active''
   \<and> map_option g_status (gd_goal (updateGoalStatus False 1760000000000 ''completed'' sample_details))
       \<noteq> Some ''completed''
   \<and> gd_console (updateGoalStatus False 1760000000000 ''completed'' sample_details)
       = [''Error updating goal status:'']"
  by (simp add: sample_details_def sample_goal_def updateGoalStatus_def updateDoc_def)

text \<open>
  Claim C5, amended. For each of the four mutations of the detail view, with a signed-in
  user and a loaded goal: when the persistence write succeeds, the local goal carries the
  mutation; when it fails, the error is logged and the local goal and the store are as
  they were.
\<close>

theorem detail_mutations_follow_the_write:
  assumes "gd_user s = Some user" and "gd_goal s = Some goal"
  shows "(write_succeeds accepted s \<longrightarrow>
            gd_goal (updateGoalStatus accepted now status s) = Some (goal \<lparr> g_status := status \<rparr>)
          \<and> gd_goal (toggleMilestone accepted now milestoneId completed s)
              = Some (goal \<lparr> g_milestones := map (toggle_one now milestoneId completed) (g_milestones goal) \<rparr>)
          \<and> gd_goal (updateMetric accepted now metricId v s)
              = Some (goal \<lparr> g_metrics := map (update_one now metricId v) (g_metrics goal) \<rparr>)
          \<and> gd_goal (addReflection accepted now uid r s)
              = Some (goal \<lparr> g_reflections := g_reflections goal @ [r \<lparr> rf_id := uid, rf_userId := user \<rparr>] \<rparr>))
       \<and> (\<not> write_succeeds accepted s \<longrightarrow>
            updateGoalStatus accepted now status s
              = s \<lparr> gd_console := gd_console s @ [''Error updating goal status:''] \<rparr>
          \<and> toggleMilestone accepted now milestoneId completed s
              = s \<lparr> gd_console := gd_console s @ [''Error updating milestone:''] \<rparr>
          \<and> updateMetric accepted now metricId v s
              = s \<lparr> gd_console := gd_console s @ [''Error updating metric:''] \<rparr>
          \<and> addReflection accepted now uid r s
              = s \<lparr> gd_console := gd_console s @ [''Error adding reflection:''] \<rparr>)"
proof (intro conjI impI)
  assume w: "write_succeeds accepted s"
  show "gd_goal (updateGoalStatus accepted now status s) = Some (goal \<lparr> g_status := status \<rparr>)"
    using assms w by (rule updateGoalStatus_accepted)
  show "gd_goal (toggleMilestone accepted now milestoneId completed s)
              = Some (goal \<lparr> g_milestones := map (toggle_one now milestoneId completed) (g_milestones goal) \<rparr>)"
    using assms w by (rule toggleMilestone_accepted)
  show "gd_goal (updateMetric accepted now metricId v s)
              = Some (goal \<lparr> g_metrics := map (update_one now metricId v) (g_metrics goal) \<rparr>)"
    by (simp add: updateMetric_accepted[OF assms w])
  show "gd_goal (addReflection accepted now uid r s)
              = Some (goal \<lparr> g_reflections := g_reflections goal @ [r \<lparr> rf_id := uid, rf_userId := user \<rparr>] \<rparr>)"
    using assms w by (rule addReflection_accepted)
next
  assume nw: "\<not> write_succeeds accepted s"
  show "updateGoalStatus accepted now status s
              = s \<lparr> gd_console := gd_console s @ [''Error updating goal status:''] \<rparr>"
    using assms nw by (rule updateGoalStatus_rejected)
  show "toggleMilestone accepted now milestoneId completed s
              = s \<lparr> gd_console := gd_console s @ [''Error updating milestone:''] \<rparr>"
    using assms nw by (rule toggleMilestone_rejected)
  show "updateMetric accepted now metricId v s
              = s \<lparr> gd_console := gd_console s @ [''Error updating metric:''] \<rparr>"
    using assms nw by (rule updateMetric_rejected)
  show "addReflection accepted now uid r s
              = s \<lparr> gd_console := gd_console s @ [''Error adding reflection:''] \<rparr>"
    using assms nw by (rule addReflection_rejected)
qed

theorem detail_mutations_follow_the_write_witness:
  "gd_goal (updateGoalStatus True 1760000000000 ''paused'' sample_details)
     = Some (sample_goal \<lparr> g_status := ''paused'' \<rparr>)
   \<and> gd_goal (updateGoalStatus False 1760000000000 ''paused'' sample_details) = Some sample_goal"
proof -
  have u: "gd_user sample_details = Some ''u1''" and g: "gd_goal sample_details = Some sample_goal"
    by (simp_all add: sample_details_def)
  have w: "write_succeeds True sample_details" and nw: "\<not> write_succeeds False sample_details"
    by (simp_all add: write_succeeds_def sample_details_def)
  note ok = detail_mutations_follow_the_write[OF u g, where accepted = True and now = 1760000000000
      and status = "''paused''" and milestoneId = "''m1''" and completed = True
      and metricId = "''km''" and v = "MNum 1" and uid = "''r1''" and r = undefined]
  note ko = detail_mutations_follow_the_write[OF u g, where accepted = False and now = 1760000000000
      and status = "''paused''" and milestoneId = "''m1''" and completed = True
      and metricId = "''km''" and v = "MNum 1" and uid = "''r1''" and r = undefined]
  from ok w have "gd_goal (updateGoalStatus True 1760000000000 ''paused'' sample_details)
     = Some (sample_goal \<lparr> g_status := ''paused'' \<rparr>)"
    by blast
  moreover from ko nw have "updateGoalStatus False 1760000000000 ''paused'' sample_details
     = sample_details \<lparr> gd_console := gd_console sample_details @ [''Error updating goal status:''] \<rparr>"
    by blast
  ultimately show ?thesis using g by simp
qed

text \<open>
  Claim C7, as stated, fails when the write is rejected: nothing is appended to the metric's
  history, locally or in the store, and the current value is the old one.
\<close>

theorem metric_sample_lost_when_write_fails:
  "map_option (map mt_history \<circ> g_metrics) (gd_goal sample_details) = Some [[]]
   \<and> map_option (map mt_history \<circ> g_metrics)
        (gd_goal (updateMetric False 1760000000000 ''km'' (MNum 12) sample_details)) = Some [[]]
   \<and> map_option (map mt_history \<circ> g_metrics)
        (gd_goal (updateMetric False 1760000000000 ''km'' (MNum 12) sample_details))
       \<noteq> Some [[\<lparr> h_date = Date 1760000000000, h_value = MNum 12 \<rparr>]]
   \<and> map_option (map mt_current \<circ> g_metrics)
        (gd_goal (updateMetric False 1760000000000 ''km'' (MNum 12) sample_details)) = Some [MNum 0]
   \<and> gd_db (updateMetric False 1760000000000 ''km'' (MNum 12) sample_details) ''g1''
       = Some sample_goal"
  by (simp add: sample_details_def sample_goal_def sample_metric_def updateMetric_def updateDoc_def)

text \<open>
  Claim C7, amended. For a loaded goal, a metric of it with the given id and a new value:
  when the persistence write succeeds, the metric's history, in the local goal and in the
  stored document, is the old history followed by the one new sample, and its current
  value is the new value; when the write fails, the local goal and the store are as they
  were, so no entry is removed or altered in either case.
\<close>

theorem updateMetric_appends_one_sample:
  assumes "gd_user s = Some user" and "gd_goal s = Some goal"
      and "i < length (g_metrics goal)" and "mt_id (g_metrics goal ! i) = metricId"
  shows "(write_succeeds accepted s \<longrightarrow>
           (\<exists>goal' doc'.
               gd_goal (updateMetric accepted now metricId v s) = Some goal'
             \<and> gd_db (updateMetric accepted now metricId v s) (gd_goalId s) = Some doc'
             \<and> g_metrics doc' = g_metrics goal'
             \<and> length (g_metrics goal') = length (g_metrics goal)
             \<and> mt_history (g_metrics goal' ! i)
                 = mt_history (g_metrics goal ! i) @ [\<lparr> h_date = Date now, h_value = v \<rparr>]
             \<and> mt_current (g_metrics goal' ! i) = v))
       \<and> (\<not> write_succeeds accepted s \<longrightarrow>
             gd_goal (updateMetric accepted now metricId v s) = Some goal
           \<and> gd_db (updateMetric accepted now metricId v s) = gd_db s)"
proof (intro conjI impI)
  assume w: "write_succeeds accepted s"
  show "\<exists>goal' doc'.
               gd_goal (updateMetric accepted now metricId v s) = Some goal'
             \<and> gd_db (updateMetric accepted now metricId v s) (gd_goalId s) = Some doc'
             \<and> g_metrics doc' = g_metrics goal'
             \<and> length (g_metrics goal') = length (g_metrics goal)
             \<and> mt_history (g_metrics goal' ! i)
                 = mt_history (g_metrics goal ! i) @ [\<lparr> h_date = Date now, h_value = v \<rparr>]
             \<and> mt_current (g_metrics goal' ! i) = v"
    using assms(3,4) by (simp add: updateMetric_accepted[OF assms(1,2) w] update_one_def)
next
  assume nw: "\<not> write_succeeds accepted s"
  show "gd_goal (updateMetric accepted now metricId v s) = Some goal"
    by (simp add: updateMetric_rejected[OF assms(1,2) nw] assms(2))
  show "gd_db (updateMetric accepted now metricId v s) = gd_db s"
    by (simp add: updateMetric_rejected[OF assms(1,2) nw])
qed

theorem updateMetric_appends_one_sample_witness:
  "map_option (map mt_history \<circ> g_metrics)
        (gd_goal (updateMetric True 1760000000000 ''km'' (MNum 12) sample_details))
     = Some [[\<lparr> h_date = Date 1760000000000, h_value = MNum 12 \<rparr>]]
   \<and> map_option (map mt_current \<circ> g_metrics)
        (gd_goal (updateMetric True 1760000000000 ''km'' (MNum 12) sample_details)) = Some [MNum 12]"
proof -
  have u: "gd_user sample_details = Some ''u1''" and g: "gd_goal sample_details = Some sample_goal"
    by (simp_all add: sample_details_def)
  have w: "write_succeeds True sample_details"
    by (simp add: write_succeeds_def sample_details_def)
  have i: "0 < length (g_metrics sample_goal)" and m: "mt_id (g_metrics sample_goal ! 0) = ''km''"
    and h: "mt_history (g_metrics sample_goal ! 0) = []" and l: "length (g_metrics sample_goal) = 1"
    by (simp_all add: sample_goal_def sample_metric_def)
  from updateMetric_appends_one_sample[OF u g i m, where accepted = True and now = 1760000000000
      and v = "MNum 12"] w
  obtain goal' where g': "gd_goal (updateMetric True 1760000000000 ''km'' (MNum 12) sample_details) = Some goal'"
    "length (g_metrics goal') = length (g_metrics sample_goal)"
    "mt_history (g_metrics goal' ! 0)
       = mt_history (g_metrics sample_goal ! 0) @ [\<lparr> h_date = Date 1760000000000, h_value = MNum 12 \<rparr>]"
    "mt_current (g_metrics goal' ! 0) = MNum 12"
    by blast
  from g'(2) l obtain x where x: "g_metrics goal' = [x]"
    by (cases "g_metrics goal'") auto
  with g' h show ?thesis by simp
qed

lemma toggle_one_frame:
  "(ms_id m \<noteq> milestoneId \<longrightarrow> toggle_one now milestoneId completed m = m)
   \<and> differs_only_in_completion m (toggle_one now milestoneId completed m)"
  by (simp add: toggle_one_def differs_only_in_completion_def)

lemma toggle_frame_map: "toggle_frame milestoneId ms (map (toggle_one now milestoneId completed) ms)"
proof -
  have "list_all2 (\<lambda>m m'. (ms_id m \<noteq> milestoneId \<longrightarrow> m' = m) \<and> differs_only_in_completion m m')
          ms (map (toggle_one now milestoneId completed) ms)"
    by (simp add: list_all2_map2 list_all2_same toggle_one_frame)
  moreover have "milestoneId \<notin> set (map ms_id ms) \<longrightarrow> map (toggle_one now milestoneId completed) ms = ms"
  proof
    assume a: "milestoneId \<notin> set (map ms_id ms)"
    have "\<And>m. m \<in> set ms \<Longrightarrow> toggle_one now milestoneId completed m = m"
      using a by (auto simp: toggle_one_def)
    then show "map (toggle_one now milestoneId completed) ms = ms" by (rule map_idI)
  qed
  ultimately show ?thesis by (simp add: toggle_frame_def)
qed

lemma toggle_frame_refl: "toggle_frame milestoneId ms ms"
  by (simp add: toggle_frame_def list_all2_same differs_only_in_completion_def)

lemma toggleMilestone_cases:
  "toggleMilestone accepted now milestoneId completed s = s
   \<or> toggleMilestone accepted now milestoneId completed s
        = s \<lparr> gd_console := gd_console s @ [''Error updating milestone:''] \<rparr>
   \<or> (\<exists>goal d. gd_goal s = Some goal \<and> gd_db s (gd_goalId s) = Some d
        \<and> toggleMilestone accepted now milestoneId completed s
            = s \<lparr> gd_db := (gd_db s) (gd_goalId s := Some (d
                      \<lparr> g_milestones := map (toggle_one now milestoneId completed) (g_milestones goal),
                        g_updatedAt := Date now \<rparr>)),
                  gd_goal := Some (goal \<lparr> g_milestones := map (toggle_one now milestoneId completed) (g_milestones goal) \<rparr>) \<rparr>)"
proof (cases "gd_user s")
  case None
  then show ?thesis unfolding toggleMilestone_def by simp
next
  case (Some user)
  show ?thesis
  proof (cases "gd_goal s")
    case None
    with Some show ?thesis unfolding toggleMilestone_def by simp
  next
    case g: (Some goal)
    show ?thesis
    proof (cases "write_succeeds accepted s")
      case True
      then obtain d where d: "gd_db s (gd_goalId s) = Some d" by (auto simp: write_succeeds_def)
      with Some g True show ?thesis
        unfolding toggleMilestone_def Let_def by (simp add: updateDoc_write_succeeds)
    next
      case False
      with Some g show ?thesis
        unfolding toggleMilestone_def Let_def by (simp add: updateDoc_write_fails)
    qed
  qed
qed


lemma handleToggleMilestone_cases:
  "handleToggleMilestone accepted now goalId milestoneId completed t = t
   \<or> handleToggleMilestone accepted now goalId milestoneId completed t
        = t \<lparr> gl_console := gl_console t @ [''Error updating milestone:''] \<rparr>
   \<or> (\<exists>goal d. find (\<lambda>g. g_id g = goalId) (gl_goals t) = Some goal \<and> gl_db t goalId = Some d
        \<and> handleToggleMilestone accepted now goalId milestoneId completed t
            = t \<lparr> gl_db := (gl_db t) (goalId := Some (d
                      \<lparr> g_milestones := map (toggle_one now milestoneId completed) (g_milestones goal),
                        g_updatedAt := Date now \<rparr>)) \<rparr>)"
proof (cases "gl_user t")
  case None
  then show ?thesis unfolding handleToggleMilestone_def by simp
next
  case (Some user)
  show ?thesis
  proof (cases "find (\<lambda>g. g_id g = goalId) (gl_goals t)")
    case None
    with Some show ?thesis unfolding handleToggleMilestone_def by simp
  next
    case g: (Some goal)
    show ?thesis
    proof (cases "accepted \<and> gl_db t goalId \<noteq> None")
      case True
      then obtain d where d: "gl_db t goalId = Some d" by auto
      with Some g True show ?thesis
        unfolding handleToggleMilestone_def Let_def by (simp add: updateDoc_def)
    next
      case False
      with Some g show ?thesis
        unfolding handleToggleMilestone_def Let_def by (auto simp: updateDoc_def)
    qed
  qed
qed

text \<open>
  Claim C10. The milestone toggle of the detail view and of the goal list, whatever the
  outcome of the write. In the local goal of the detail view nothing but the milestone
  list changes, and the new list is within the frame of the toggle: same length and
  order, milestones with another id the same, the others differing at most in \<open>completed\<close>
  and \<open>completedDate\<close>, and the very same list when no milestone has the id. A stored
  document changes at most in \<open>milestones\<close> and \<open>updatedAt\<close>, and when it changes its
  milestone list is within the frame of the toggle of the local goal's list. The goal list's
  handler leaves the local list of goals as it was.
\<close>

theorem toggle_changes_only_the_named_milestone:
  "(\<forall>goal. gd_goal s = Some goal \<longrightarrow>
      (\<exists>goal'. gd_goal (toggleMilestone accepted now milestoneId completed s) = Some goal'
         \<and> goal' \<lparr> g_milestones := g_milestones goal \<rparr> = goal
         \<and> toggle_frame milestoneId (g_milestones goal) (g_milestones goal')))
   \<and> (\<forall>k d. gd_db s k = Some d \<longrightarrow>
      (\<exists>d'. gd_db (toggleMilestone accepted now milestoneId completed s) k = Some d'
         \<and> d' \<lparr> g_milestones := g_milestones d, g_updatedAt := g_updatedAt d \<rparr> = d
         \<and> (d' = d \<or> (\<exists>goal. gd_goal s = Some goal
                \<and> toggle_frame milestoneId (g_milestones goal) (g_milestones d')))))
   \<and> gl_goals (handleToggleMilestone accepted now goalId milestoneId completed t) = gl_goals t
   \<and> (\<forall>k d. gl_db t k = Some d \<longrightarrow>
      (\<exists>d'. gl_db (handleToggleMilestone accepted now goalId milestoneId completed t) k = Some d'
         \<and> d' \<lparr> g_milestones := g_milestones d, g_updatedAt := g_updatedAt d \<rparr> = d
         \<and> (d' = d \<or> (\<exists>goal \<in> set (gl_goals t). g_id goal = goalId
                \<and> toggle_frame milestoneId (g_milestones goal) (g_milestones d')))))"
proof (intro conjI allI impI)
  fix goal assume g: "gd_goal s = Some goal"
  from toggleMilestone_cases[of accepted now milestoneId completed s]
  show "\<exists>goal'. gd_goal (toggleMilestone accepted now milestoneId completed s) = Some goal'
         \<and> goal' \<lparr> g_milestones := g_milestones goal \<rparr> = goal
         \<and> toggle_frame milestoneId (g_milestones goal) (g_milestones goal')"
  proof (elim disjE exE conjE)
    assume "toggleMilestone accepted now milestoneId completed s = s"
    with g show ?thesis by (simp add: toggle_frame_refl)
  next
    assume "toggleMilestone accepted now milestoneId completed s
        = s \<lparr> gd_console := gd_console s @ [''Error updating milestone:''] \<rparr>"
    with g show ?thesis by (simp add: toggle_frame_refl)
  next
    fix goal0 d
    assume a: "gd_goal s = Some goal0" and
      e: "toggleMilestone accepted now milestoneId completed s
            = s \<lparr> gd_db := (gd_db s) (gd_goalId s := Some (d
                      \<lparr> g_milestones := map (toggle_one now milestoneId completed) (g_milestones goal0),
                        g_updatedAt := Date now \<rparr>)),
                  gd_goal := Some (goal0 \<lparr> g_milestones := map (toggle_one now milestoneId completed) (g_milestones goal0) \<rparr>) \<rparr>"
    from a g have "goal0 = goal" by simp
    with e show ?thesis by (simp add: toggle_frame_map)
  qed
next
  fix k d assume kd: "gd_db s k = Some d"
  from toggleMilestone_cases[of accepted now milestoneId completed s]
  show "\<exists>d'. gd_db (toggleMilestone accepted now milestoneId completed s) k = Some d'
         \<and> d' \<lparr> g_milestones := g_milestones d, g_updatedAt := g_updatedAt d \<rparr> = d
         \<and> (d' = d \<or> (\<exists>goal. gd_goal s = Some goal
                \<and> toggle_frame milestoneId (g_milestones goal) (g_milestones d')))"
  proof (elim disjE exE conjE)
    assume "toggleMilestone accepted now milestoneId completed s = s"
    with kd show ?thesis by simp
  next
    assume "toggleMilestone accepted now milestoneId completed s
        = s \<lparr> gd_console := gd_console s @ [''Error updating milestone:''] \<rparr>"
    with kd show ?thesis by simp
  next
    fix goal0 d0
    assume a: "gd_goal s = Some goal0" and b: "gd_db s (gd_goalId s) = Some d0" and
      e: "toggleMilestone accepted now milestoneId completed s
            = s \<lparr> gd_db := (gd_db s) (gd_goalId s := Some (d0
                      \<lparr> g_milestones := map (toggle_one now milestoneId completed) (g_milestones goal0),
                        g_updatedAt := Date now \<rparr>)),
                  gd_goal := Some (goal0 \<lparr> g_milestones := map (toggle_one now milestoneId completed) (g_milestones goal0) \<rparr>) \<rparr>"
    show ?thesis
    proof (cases "k = gd_goalId s")
      case True
      with kd b have "d0 = d" by simp
      with True e a show ?thesis by (simp add: toggle_frame_map)
    next
      case False
      with kd e show ?thesis by simp
    qed
  qed
next
  from handleToggleMilestone_cases[of accepted now goalId milestoneId completed t]
  show "gl_goals (handleToggleMilestone accepted now goalId milestoneId completed t) = gl_goals t"
    by (elim disjE exE conjE) simp_all
next
  fix k d assume kd: "gl_db t k = Some d"
  from handleToggleMilestone_cases[of accepted now goalId milestoneId completed t]
  show "\<exists>d'. gl_db (handleToggleMilestone accepted now goalId milestoneId completed t) k = Some d'
         \<and> d' \<lparr> g_milestones := g_milestones d, g_updatedAt := g_updatedAt d \<rparr> = d
         \<and> (d' = d \<or> (\<exists>goal \<in> set (gl_goals t). g_id goal = goalId
                \<and> toggle_frame milestoneId (g_milestones goal) (g_milestones d')))"
  proof (elim disjE exE conjE)
    assume "handleToggleMilestone accepted now goalId milestoneId completed t = t"
    with kd show ?thesis by simp
  next
    assume "handleToggleMilestone accepted now goalId milestoneId completed t
        = t \<lparr> gl_console := gl_console t @ [''Error updating milestone:''] \<rparr>"
    with kd show ?thesis by simp
  next
    fix goal0 d0
    assume a: "find (\<lambda>g. g_id g = goalId) (gl_goals t) = Some goal0" and b: "gl_db t goalId = Some d0" and
      e: "handleToggleMilestone accepted now goalId milestoneId completed t
            = t \<lparr> gl_db := (gl_db t) (goalId := Some (d0
                      \<lparr> g_milestones := map (toggle_one now milestoneId completed) (g_milestones goal0),
                        g_updatedAt := Date now \<rparr>)) \<rparr>"
    from a have mem: "goal0 \<in> set (gl_goals t)" and gid: "g_id goal0 = goalId"
      by (auto simp: find_Some_iff)
    show ?thesis
    proof (cases "k = goalId")
      case True
      with kd b have "d0 = d" by simp
      with True e mem gid show ?thesis
        by (auto simp: toggle_frame_map)
    next
      case False
      with kd e show ?thesis by simp
    qed
  qed
qed

theorem toggle_changes_only_the_named_milestone_witness:
  "\<exists>goal'. gd_goal (toggleMilestone True 1760000000000 ''m2'' True sample_details) = Some goal'
      \<and> goal' \<lparr> g_milestones := g_milestones sample_goal \<rparr> = sample_goal
      \<and> toggle_frame ''m2'' (g_milestones sample_goal) (g_milestones goal')
      \<and> map ms_completed (g_milestones goal') = [True, True, False]"
proof -
  have g: "gd_goal sample_details = Some sample_goal"
    by (simp add: sample_details_def)
  from toggle_changes_only_the_named_milestone[where s = sample_details and accepted = True
      and now = 1760000000000 and milestoneId = "''m2''" and completed = True
      and t = sample_list and goalId = "''g1''"] g
  obtain goal' where g': "gd_goal (toggleMilestone True 1760000000000 ''m2'' True sample_details) = Some goal'"
    "goal' \<lparr> g_milestones := g_milestones sample_goal \<rparr> = sample_goal"
    "toggle_frame ''m2'' (g_milestones sample_goal) (g_milestones goal')"
    by blast
  have "map_option (map ms_completed \<circ> g_milestones)
          (gd_goal (toggleMilestone True 1760000000000 ''m2'' True sample_details))
        = Some [True, True, False]"
    by (simp add: sample_details_def sample_goal_def sample_milestone_def toggleMilestone_def
        updateDoc_def toggle_one_def Let_def)
  then have "map_option (map ms_completed \<circ> g_milestones) (Some goal') = Some [True, True, False]"
    unfolding g'(1) .
  then have c: "map ms_completed (g_milestones goal') = [True, True, False]"
    by (simp only: option.map option.inject o_apply)
  show ?thesis
  proof (rule exI[of _ goal'], intro conjI)
    show "gd_goal (toggleMilestone True 1760000000000 ''m2'' True sample_details) = Some goal'"
      by (rule g'(1))
    show "goal' \<lparr> g_milestones := g_milestones sample_goal \<rparr> = sample_goal"
      by (rule g'(2))
    show "toggle_frame ''m2'' (g_milestones sample_goal) (g_milestones goal')"
      by (rule g'(3))
    show "map ms_completed (g_milestones goal') = [True, True, False]"
      by (rule c)
  qed
qed

subsection \<open>Progress percentage\<close>

text \<open>
  The rounding error of double arithmetic: \<open>binade\<close> brackets a positive number between two
  powers of two, a rounded result is within half a unit in the last place, and for counts
  below \<open>2^32\<close> the computed percentage is within \<open>2^-44\<close> of the exact one.
\<close>

lemma bitlen_ge1: "0 < n \<Longrightarrow> 1 \<le> bitlen n"
  by (simp add: bitlen_alt_def)

lemma binade_lower: assumes "0 < x" shows "2 powi (binade x) \<le> x"
proof (cases "1 \<le> x")
  case True
  define n where "n = \<lfloor>x\<rfloor>"
  have n1: "1 \<le> n" using True by (simp add: n_def)
  then have n0: "0 < n" by simp
  have b1: "1 \<le> bitlen n" using n0 by (rule bitlen_ge1)
  from bitlen_bounds[OF n0] have lo: "2 ^ nat (bitlen n - 1) \<le> n" by simp
  have "2 powi (binade x) = (2::rat) powi (bitlen n - 1)"
    using True by (simp add: binade_def n_def)
  also have "\<dots> = (2::rat) ^ nat (bitlen n - 1)"
    using b1 by (simp add: power_int_def)
  also have "\<dots> = of_int (2 ^ nat (bitlen n - 1))" by simp
  also have "\<dots> \<le> of_int n" using lo by (simp only: of_int_le_iff)
  also have "\<dots> \<le> x" by (simp add: n_def)
  finally show ?thesis .
next
  case False
  define y where "y = 1 / x"
  have y1: "1 < y" using False assms by (simp add: y_def)
  define m where "m = \<lceil>y\<rceil> - 1"
  have "2 \<le> \<lceil>y\<rceil>" using y1 by (simp add: le_ceiling_iff)
  then have m0: "0 < m" by (simp add: m_def)
  have b1: "1 \<le> bitlen m" using m0 by (rule bitlen_ge1)
  have ym: "y \<le> of_int m + 1" by (simp add: m_def)
  from bitlen_bounds[OF m0] have "m < 2 ^ nat (bitlen m)" by simp
  then have "m + 1 \<le> 2 ^ nat (bitlen m)" by simp
  then have "(of_int (m + 1) :: rat) \<le> of_int (2 ^ nat (bitlen m))" by (simp only: of_int_le_iff)
  then have "of_int m + 1 \<le> (2::rat) ^ nat (bitlen m)" by simp
  with ym have yb: "y \<le> (2::rat) ^ nat (bitlen m)" by simp
  have "2 powi (binade x) = (2::rat) powi (- bitlen m)"
    using False by (simp add: binade_def m_def y_def)
  also have "\<dots> = 1 / (2::rat) ^ nat (bitlen m)"
    using b1 by (simp add: power_int_def field_simps)
  also have "\<dots> \<le> 1 / y" using yb y1 by (simp add: frac_le)
  also have "\<dots> = x" by (simp add: y_def)
  finally show ?thesis .
qed

lemma binade_upper: assumes "0 < x" shows "x < 2 powi (binade x + 1)"
proof (cases "1 \<le> x")
  case True
  define n where "n = \<lfloor>x\<rfloor>"
  have n1: "1 \<le> n" using True by (simp add: n_def)
  then have n0: "0 < n" by simp
  have b1: "1 \<le> bitlen n" using n0 by (rule bitlen_ge1)
  from bitlen_bounds[OF n0] have "n < 2 ^ nat (bitlen n)" by simp
  then have "n + 1 \<le> 2 ^ nat (bitlen n)" by simp
  then have "(of_int (n + 1) :: rat) \<le> of_int (2 ^ nat (bitlen n))" by (simp only: of_int_le_iff)
  then have up: "of_int n + 1 \<le> (2::rat) ^ nat (bitlen n)" by simp
  have "x < of_int n + 1" unfolding n_def by linarith
  also note up
  also have "(2::rat) ^ nat (bitlen n) = 2 powi (bitlen n)"
    using b1 by (simp add: power_int_def)
  also have "\<dots> = 2 powi (binade x + 1)"
    using True by (simp add: binade_def n_def)
  finally show ?thesis .
next
  case False
  define y where "y = 1 / x"
  have y1: "1 < y" using False assms by (simp add: y_def)
  define m where "m = \<lceil>y\<rceil> - 1"
  have "2 \<le> \<lceil>y\<rceil>" using y1 by (simp add: le_ceiling_iff)
  then have m0: "0 < m" by (simp add: m_def)
  have b1: "1 \<le> bitlen m" using m0 by (rule bitlen_ge1)
  have my: "of_int m < y" unfolding m_def using ceiling_correct[of y] by simp
  from bitlen_bounds[OF m0] have lo: "2 ^ nat (bitlen m - 1) \<le> m" by simp
  have h: "(2::rat) ^ nat (bitlen m - 1) \<le> of_int m"
  proof -
    have "(2::rat) ^ nat (bitlen m - 1) = of_int (2 ^ nat (bitlen m - 1))" by simp
    also have "\<dots> \<le> of_int m" using lo by (simp only: of_int_le_iff)
    finally show ?thesis .
  qed
  from h my have yb: "(2::rat) ^ nat (bitlen m - 1) < y" by (rule le_less_trans)
  have pos: "0 < (2::rat) ^ nat (bitlen m - 1)" by simp
  have "x = 1 / y" by (simp add: y_def)
  also have "\<dots> < 1 / (2::rat) ^ nat (bitlen m - 1)"
    using yb pos by (simp add: frac_less2)
  also have "\<dots> = 2 powi (- (bitlen m - 1))"
    using b1 by (simp add: power_int_def field_simps)
  also have "\<dots> = 2 powi (binade x + 1)"
    using False by (simp add: binade_def m_def y_def)
  finally show ?thesis .
qed

lemma round_half_even_error: "\<bar>of_int (round_half_even r) - r\<bar> \<le> 1 / 2"
proof -
  have "of_int \<lfloor>r\<rfloor> \<le> r" "r < of_int \<lfloor>r\<rfloor> + 1" by linarith+
  then show ?thesis
    by (auto simp: round_half_even_def Let_def)
qed

lemma to_double_error:
  assumes "2 powi (- 1022) \<le> x"
  shows "\<bar>to_double x - x\<bar> \<le> x / 2 ^ 53"
proof -
  have pos: "0 < x"
    using assms zero_less_power_int[of "2::rat" "- 1022"] by linarith
  define e where "e = binade x"
  have lo: "2 powi e \<le> x" unfolding e_def using pos by (rule binade_lower)
  have up: "x < 2 powi (e + 1)" unfolding e_def using pos by (rule binade_upper)
  have "(2::rat) powi (- 1022) < 2 powi (e + 1)" using assms up by linarith
  have "- 1022 < e + 1"
  proof (rule ccontr)
    assume "\<not> - 1022 < e + 1"
    then have "e + 1 \<le> - 1022" by simp
    then have "(2::rat) powi (e + 1) \<le> 2 powi (- 1022)"
      by (rule power_int_increasing) simp
    with \<open>(2::rat) powi (- 1022) < 2 powi (e + 1)\<close> show False by linarith
  qed
  then have m: "max e (- 1022) = e" by simp
  define ulp :: rat where "ulp = 2 powi (e - 52)"
  have ulp0: "0 < ulp" by (simp add: ulp_def)
  define n where "n = round_half_even (x / ulp)"
  have td: "to_double x = of_int n * ulp"
    using pos m by (simp add: to_double_def Let_def e_def[symmetric] ulp_def n_def)
  have "\<bar>of_int n - x / ulp\<bar> \<le> 1 / 2" unfolding n_def by (rule round_half_even_error)
  then have "\<bar>of_int n - x / ulp\<bar> * ulp \<le> 1 / 2 * ulp"
    using ulp0 by (simp add: mult_right_mono)
  moreover have "\<bar>of_int n - x / ulp\<bar> * ulp = \<bar>of_int n * ulp - x\<bar>"
  proof -
    have "\<bar>of_int n - x / ulp\<bar> * ulp = \<bar>of_int n - x / ulp\<bar> * \<bar>ulp\<bar>"
      using ulp0 by simp
    also have "\<dots> = \<bar>(of_int n - x / ulp) * ulp\<bar>" by (simp only: abs_mult)
    also have "(of_int n - x / ulp) * ulp = of_int n * ulp - x"
      using ulp0 by (simp add: left_diff_distrib)
    finally show ?thesis .
  qed
  ultimately have err: "\<bar>to_double x - x\<bar> \<le> ulp / 2" by (simp add: td)
  have "ulp = 2 powi e / 2 ^ 52"
    by (simp add: ulp_def power_int_diff)
  then have "ulp / 2 = 2 powi e / 2 ^ 53" by simp
  also have "\<dots> \<le> x / 2 ^ 53" using lo by (simp add: divide_right_mono)
  finally show ?thesis using err by linarith
qed

lemma tiny_le: "(2::rat) powi (- 1022) \<le> 1 / 2 ^ 32"
proof -
  have "(2::rat) powi (- 1022) \<le> 2 powi (- 32)"
    by (rule power_int_increasing) simp_all
  also have "\<dots> = 1 / 2 ^ 32" by (simp add: power_int_def field_simps)
  finally show ?thesis .
qed

lemma percent_error:
  assumes "0 < c" and "c \<le> t" and "t < 2 ^ 32"
  shows "\<bar>double_mul (double_div (of_nat c) (of_nat t)) 100 - (of_nat c :: rat) / of_nat t * 100\<bar> < 1 / 2 ^ 44"
proof -
  define q :: rat where "q = of_nat c / of_nat t"
  define r where "r = to_double q"
  define y where "y = to_double (r * 100)"
  define d where "d = q / 2 ^ 53"
  have t0: "0 < t" using assms by simp
  have tr: "(of_nat t :: rat) < 2 ^ 32"
  proof -
    have "(of_nat t :: rat) < of_nat (2 ^ 32)" using assms(3) by (simp only: of_nat_less_iff)
    then show ?thesis by simp
  qed
  have c1: "(1::rat) \<le> of_nat c" using assms(1) by simp
  have q1: "q \<le> 1" using assms(2) t0 by (simp add: q_def)
  have "1 / 2 ^ 32 \<le> 1 / (of_nat t :: rat)" using tr t0 by (simp add: frac_le)
  also have "\<dots> \<le> q" unfolding q_def using c1 t0 by (simp add: divide_right_mono)
  finally have qlo: "1 / 2 ^ 32 \<le> q" .
  then have qn: "2 powi (- 1022) \<le> q" using tiny_le by linarith
  have q0: "0 < q" using qlo by (simp add: less_le_trans[of 0 "1 / 2 ^ 32"])
  have e1: "\<bar>r - q\<bar> \<le> d" unfolding r_def d_def using qn by (rule to_double_error)
  have d0: "0 \<le> d" and dq: "d \<le> q / 2" using q0 by (simp_all add: d_def)
  have rlo: "q / 2 \<le> r" using e1 dq by linarith
  have rhi: "r \<le> 2 * q" using e1 dq q0 by linarith
  have "2 powi (- 1022) \<le> r * 100" using rlo qn q0 by linarith
  then have "\<bar>y - r * 100\<bar> \<le> r * 100 / 2 ^ 53" unfolding y_def by (rule to_double_error)
  also have "\<dots> \<le> 2 * q * 100 / 2 ^ 53" using rhi by (simp add: divide_right_mono)
  also have "\<dots> = 200 * d" by (simp add: d_def)
  finally have e2: "\<bar>y - r * 100\<bar> \<le> 200 * d" .
  have "\<bar>y - q * 100\<bar> \<le> 300 * d" using e1 e2 by linarith
  also have "\<dots> \<le> 300 * (1 / 2 ^ 53)"
    using q1 by (intro mult_left_mono) (simp_all add: d_def divide_right_mono)
  also have "\<dots> < 1 / 2 ^ 44" by simp
  finally show ?thesis
    by (simp add: double_mul_def double_div_def y_def r_def q_def)
qed

lemma percent_nearest:
  assumes "c \<le> t" and "0 < t" and "t < 2 ^ 32"
  shows "\<bar>of_int (math_round (double_mul (double_div (of_nat c) (of_nat t)) 100))
           - (of_nat c :: rat) / of_nat t * 100\<bar> \<le> 1 / 2"
proof (cases "c = 0")
  case True
  have "\<lfloor>(1::rat) / 2\<rfloor> = 0" by (simp add: floor_eq_iff)
  with True show ?thesis
    by (simp add: double_mul_def double_div_def to_double_def math_round_def)
next
  case False
  then have c0: "0 < c" by simp
  define x :: rat where "x = of_nat c / of_nat t * 100"
  define y where "y = double_mul (double_div (of_nat c) (of_nat t)) 100"
  define p where "p = math_round y"
  define P :: rat where "P = of_int p"
  define T :: rat where "T = 2 * of_nat t"
  define g :: rat where "g = 1 / T"
  define \<delta> :: rat where "\<delta> = 1 / 2 ^ 44"
  have err: "\<bar>y - x\<bar> < \<delta>"
    unfolding y_def x_def \<delta>_def using c0 assms(1,3) by (rule percent_error)
  have plo: "P - 1 / 2 \<le> y" and phi: "y < P + 1 / 2"
    unfolding P_def p_def math_round_def by linarith+
  have tr: "(of_nat t :: rat) < 2 ^ 32"
  proof -
    have "(of_nat t :: rat) < of_nat (2 ^ 32)" using assms(3) by (simp only: of_nat_less_iff)
    then show ?thesis by simp
  qed
  have tpos: "(0::rat) < of_nat t" using assms(2) by simp
  have T0: "0 < T" using tpos by (simp add: T_def)
  have gap: "\<delta> \<le> g"
    unfolding \<delta>_def g_def T_def using tr tpos by (intro frac_le) simp_all
  have xT: "x * T = of_int (200 * int c)" using tpos by (simp add: x_def T_def)
  have pT1: "(P - 1 / 2) * T = of_int ((2 * p - 1) * int t)"
    by (simp add: P_def T_def algebra_simps)
  have pT2: "(P + 1 / 2) * T = of_int ((2 * p + 1) * int t)"
    by (simp add: P_def T_def algebra_simps)
  have divT: "\<And>a. a * T / T = a" using T0 by simp
  have lower: "P - 1 / 2 \<le> x"
  proof (rule ccontr)
    assume "\<not> P - 1 / 2 \<le> x"
    then have "x < P - 1 / 2" by simp
    then have "x * T < (P - 1 / 2) * T" using T0 by (rule mult_strict_right_mono)
    then have "(of_int (200 * int c) :: rat) < of_int ((2 * p - 1) * int t)"
      unfolding xT pT1 .
    then have "200 * int c < (2 * p - 1) * int t" by (simp only: of_int_less_iff)
    then have "200 * int c + 1 \<le> (2 * p - 1) * int t" by simp
    then have "(of_int (200 * int c + 1) :: rat) \<le> of_int ((2 * p - 1) * int t)"
      by (simp only: of_int_le_iff)
    then have "x * T + 1 \<le> (P - 1 / 2) * T"
      unfolding xT pT1 by (simp only: of_int_add of_int_1)
    then have "(x * T + 1) / T \<le> (P - 1 / 2) * T / T"
      using T0 by (intro divide_right_mono) simp_all
    then have "x + g \<le> P - 1 / 2"
      unfolding divT g_def by (simp only: add_divide_distrib divT)
    with gap plo err show False by linarith
  qed
  have upper: "x \<le> P + 1 / 2"
  proof (rule ccontr)
    assume "\<not> x \<le> P + 1 / 2"
    then have "P + 1 / 2 < x" by simp
    then have "(P + 1 / 2) * T < x * T" using T0 by (rule mult_strict_right_mono)
    then have "(of_int ((2 * p + 1) * int t) :: rat) < of_int (200 * int c)"
      unfolding xT pT2 .
    then have "(2 * p + 1) * int t < 200 * int c" by (simp only: of_int_less_iff)
    then have "(2 * p + 1) * int t + 1 \<le> 200 * int c" by simp
    then have "(of_int ((2 * p + 1) * int t + 1) :: rat) \<le> of_int (200 * int c)"
      by (simp only: of_int_le_iff)
    then have "(P + 1 / 2) * T + 1 \<le> x * T"
      unfolding xT pT2 by (simp only: of_int_add of_int_1)
    then have "((P + 1 / 2) * T + 1) / T \<le> x * T / T"
      using T0 by (intro divide_right_mono) simp_all
    then have "P + 1 / 2 + g \<le> x"
      unfolding divT g_def by (simp only: add_divide_distrib divT)
    with gap phi err show False by linarith
  qed
  from lower upper have "\<bar>P - x\<bar> \<le> 1 / 2" by linarith
  then show ?thesis
    unfolding P_def p_def y_def x_def .
qed

lemma percent_1_of_3: "math_round (double_mul (double_div 1 3) 100) = 33"
  by code_simp

lemma percent_23_of_40: "math_round (double_mul (double_div 23 40) 100) = 57"
  by code_simp

lemma percent_1_of_8: "math_round (double_mul (double_div 1 8) 100) = 13"
  by code_simp

lemma nearest_integer_115_2: "nearest_integer (115 / 2) = 58"
  by (simp add: nearest_integer_def floor_eq_iff)

text \<open>
  Claim C6, as stated, fails. With 23 of 40 milestones completed the exact percentage is
  57.5, which rounds to 58, but the double nearest to 23/40 lies below it, the product with
  100 is the double 57.49999999999999 and the view shows 57. The tie is not always broken
  downwards either: with 1 of 8 the exact percentage is 12.5 and the view shows 13.
\<close>

theorem getProgressPercentage_tie_counterexample:
  "length (g_milestones goal_23_of_40) = 40
   \<and> length (filter ms_completed (g_milestones goal_23_of_40)) = 23
   \<and> exact_percentage goal_23_of_40 = 115 / 2
   \<and> nearest_integer (exact_percentage goal_23_of_40) = 58
   \<and> getProgressPercentage goal_23_of_40 = 57
   \<and> exact_percentage goal_1_of_8 = 25 / 2
   \<and> getProgressPercentage goal_1_of_8 = 13"
proof -
  have l: "length (g_milestones goal_23_of_40) = 40"
    and c: "length (filter ms_completed (g_milestones goal_23_of_40)) = 23"
    by (simp_all add: goal_23_of_40_def sample_milestone_def)
  have l8: "length (g_milestones goal_1_of_8) = 8"
    and c8: "length (filter ms_completed (g_milestones goal_1_of_8)) = 1"
    by (simp_all add: goal_1_of_8_def sample_milestone_def)
  have x: "exact_percentage goal_23_of_40 = 115 / 2"
    by (simp add: exact_percentage_def l c)
  have x8: "exact_percentage goal_1_of_8 = 25 / 2"
    by (simp add: exact_percentage_def l8 c8)
  have p: "getProgressPercentage goal_23_of_40 = 57"
    by (simp add: getProgressPercentage_def l c percent_23_of_40)
  have p8: "getProgressPercentage goal_1_of_8 = 13"
    by (simp add: getProgressPercentage_def l8 c8 percent_1_of_8)
  have n: "nearest_integer (exact_percentage goal_23_of_40) = 58"
    unfolding x by (rule nearest_integer_115_2)
  from l c x n p x8 p8 show ?thesis by (intro conjI)
qed

text \<open>
  Claim C6, amended. The progress percentage is 0 for a goal with no milestones. Otherwise
  (an array has fewer than \<open>2^32\<close> elements) it is an integer within one half of
  completed / total * 100: it is that value rounded to the nearest integer, except that
  when the value lies exactly halfway between two integers the view shows either the
  larger or the smaller of the two. With three milestones of which one is completed it
  is 33.
\<close>

theorem getProgressPercentage_nearest_integer:
  "(g_milestones goal = [] \<longrightarrow> getProgressPercentage goal = 0)
   \<and> (g_milestones goal \<noteq> [] \<and> length (g_milestones goal) < 2 ^ 32 \<longrightarrow>
        \<bar>of_int (getProgressPercentage goal) - exact_percentage goal\<bar> \<le> 1 / 2
      \<and> (getProgressPercentage goal = nearest_integer (exact_percentage goal)
         \<or> exact_percentage goal = of_int (getProgressPercentage goal) + 1 / 2))
   \<and> (length (g_milestones goal) = 3 \<and> length (filter ms_completed (g_milestones goal)) = 1 \<longrightarrow>
        getProgressPercentage goal = 33)"
proof (intro conjI impI)
  assume "g_milestones goal = []"
  then show "getProgressPercentage goal = 0"
    by (simp add: getProgressPercentage_def)
next
  assume a: "g_milestones goal \<noteq> [] \<and> length (g_milestones goal) < 2 ^ 32"
  define c where "c = length (filter ms_completed (g_milestones goal))"
  define t where "t = length (g_milestones goal)"
  define P :: rat where "P = of_int (getProgressPercentage goal)"
  define x :: rat where "x = exact_percentage goal"
  have ct: "c \<le> t" unfolding c_def t_def by (rule length_filter_le)
  from a have t0: "0 < t" and t32: "t < 2 ^ 32" by (simp_all add: t_def)
  have p: "getProgressPercentage goal = math_round (double_mul (double_div (of_nat c) (of_nat t)) 100)"
    using t0 by (simp add: getProgressPercentage_def Let_def c_def t_def)
  have xe: "x = of_nat c / of_nat t * 100"
    by (simp add: x_def exact_percentage_def c_def t_def)
  have near: "\<bar>P - x\<bar> \<le> 1 / 2"
    unfolding P_def p xe by (rule percent_nearest[OF ct t0 t32])
  then show "\<bar>of_int (getProgressPercentage goal) - exact_percentage goal\<bar> \<le> 1 / 2"
    unfolding P_def x_def .
  have "getProgressPercentage goal = \<lfloor>x + 1 / 2\<rfloor> \<or> x = P + 1 / 2"
  proof (cases "x = P + 1 / 2")
    case True
    then show ?thesis ..
  next
    case False
    with near have lo: "P \<le> x + 1 / 2" and hi: "x + 1 / 2 < P + 1" by linarith+
    have "\<lfloor>x + 1 / 2\<rfloor> = getProgressPercentage goal"
      using lo hi unfolding P_def by (simp add: floor_eq_iff)
    then show ?thesis by simp
  qed
  then show "getProgressPercentage goal = nearest_integer (exact_percentage goal)
         \<or> exact_percentage goal = of_int (getProgressPercentage goal) + 1 / 2"
    unfolding nearest_integer_def P_def x_def .
next
  assume "length (g_milestones goal) = 3 \<and> length (filter ms_completed (g_milestones goal)) = 1"
  then show "getProgressPercentage goal = 33"
    by (simp add: getProgressPercentage_def Let_def percent_1_of_3)
qed

theorem getProgressPercentage_nearest_integer_witness:
  "getProgressPercentage sample_goal = 33
   \<and> getProgressPercentage (sample_goal \<lparr> g_milestones := [] \<rparr>) = 0
   \<and> \<bar>of_int (getProgressPercentage sample_goal) - exact_percentage sample_goal\<bar> \<le> 1 / 2"
proof -
  have a: "length (g_milestones sample_goal) = 3 \<and> length (filter ms_completed (g_milestones sample_goal)) = 1"
    by (simp add: sample_goal_def sample_milestone_def)
  have b: "g_milestones (sample_goal \<lparr> g_milestones := [] \<rparr>) = []"
    by simp
  have c: "g_milestones sample_goal \<noteq> [] \<and> length (g_milestones sample_goal) < 2 ^ 32"
    by (simp add: sample_goal_def)
  from getProgressPercentage_nearest_integer[of sample_goal] a
  have "getProgressPercentage sample_goal = 33" by blast
  moreover from getProgressPercentage_nearest_integer[of "sample_goal \<lparr> g_milestones := [] \<rparr>"] b
  have "getProgressPercentage (sample_goal \<lparr> g_milestones := [] \<rparr>) = 0" by blast
  moreover from getProgressPercentage_nearest_integer[of sample_goal] c
  have "\<bar>of_int (getProgressPercentage sample_goal) - exact_percentage sample_goal\<bar> \<le> 1 / 2"
    by blast
  ultimately show ?thesis by (intro conjI)
qed

section \<open>Properties of the final save\<close>

lemma map_ids_ids:
  assumes "\<And>u x. g (f u x) = u"
  shows "map g (map_ids f uuids n xs) = map uuids [n ..< n + length xs]"
proof (induction xs arbitrary: n)
  case Nil
  show ?case by simp
next
  case (Cons x xs)
  have "[n ..< n + length (x # xs)] = n # [Suc n ..< Suc n + length xs]"
    by (subst upt_rec) simp
  with Cons.IH[of "Suc n"] assms show ?case by simp
qed

lemma list_all_map_ids:
  assumes "\<And>u x. P (f u x)"
  shows "list_all P (map_ids f uuids n xs)"
  by (induction xs arbitrary: n) (simp_all add: assms)

text \<open>
  Claim C9. Whatever the accumulated draft holds, the goal that \<open>handleSaveGoal\<close> hands over
  has as many milestones, metrics and routines as the draft; every milestone is not
  completed; every metric has an empty history and the current value 0, or false when its
  type is \<open>boolean\<close>; the reflections are empty; and the identifiers are the next ones the
  generator hands out, in order: milestones first, then metrics, then routines. None is
  taken from the draft.
\<close>

theorem handleSaveGoal_resets_progress:
  "\<exists>ms xs rs.
       dg_milestones (handleSaveGoal uuids n goalData) = Some ms
     \<and> dg_metrics (handleSaveGoal uuids n goalData) = Some xs
     \<and> dg_routines (handleSaveGoal uuids n goalData) = Some rs
     \<and> dg_reflections (handleSaveGoal uuids n goalData) = Some []
     \<and> length ms = length (list_or_empty (dg_milestones goalData))
     \<and> length xs = length (list_or_empty (dg_metrics goalData))
     \<and> length rs = length (list_or_empty (dg_routines goalData))
     \<and> list_all (\<lambda>m. \<not> dm_completed m) ms
     \<and> list_all (\<lambda>m. dx_history m = []
            \<and> dx_current m = (if dx_type m = Some (JStr ''boolean'') then MBool False else MNum 0)) xs
     \<and> map dm_id ms = map uuids [n ..< n + length ms]
     \<and> map dx_id xs = map uuids [n + length ms ..< n + length ms + length xs]
     \<and> map dr_id rs
         = map uuids [n + length ms + length xs ..< n + length ms + length xs + length rs]"
proof -
  define ms0 where "ms0 = list_or_empty (dg_milestones goalData)"
  define xs0 where "xs0 = list_or_empty (dg_metrics goalData)"
  define rs0 where "rs0 = list_or_empty (dg_routines goalData)"
  define ms where "ms = map_ids save_milestone uuids n ms0"
  define xs where "xs = map_ids save_metric uuids (n + length ms0) xs0"
  define rs where "rs = map_ids save_routine uuids (n + length ms0 + length xs0) rs0"
  have sel: "dg_milestones (handleSaveGoal uuids n goalData) = Some ms"
    "dg_metrics (handleSaveGoal uuids n goalData) = Some xs"
    "dg_routines (handleSaveGoal uuids n goalData) = Some rs"
    "dg_reflections (handleSaveGoal uuids n goalData) = Some []"
    by (simp_all add: handleSaveGoal_def Let_def ms_def xs_def rs_def ms0_def xs0_def rs0_def)
  have len: "length ms = length ms0" "length xs = length xs0" "length rs = length rs0"
    by (simp_all add: ms_def xs_def rs_def length_map_ids)
  have c: "list_all (\<lambda>m. \<not> dm_completed m) ms"
    unfolding ms_def by (rule list_all_map_ids) (simp add: save_milestone_def)
  have h: "list_all (\<lambda>m. dx_history m = []
            \<and> dx_current m = (if dx_type m = Some (JStr ''boolean'') then MBool False else MNum 0)) xs"
    unfolding xs_def by (rule list_all_map_ids) (simp add: save_metric_def)
  have i1: "map dm_id ms = map uuids [n ..< n + length ms]"
    unfolding len unfolding ms_def by (rule map_ids_ids) (simp add: save_milestone_def)
  have i2: "map dx_id xs = map uuids [n + length ms ..< n + length ms + length xs]"
    unfolding len unfolding xs_def by (rule map_ids_ids) (simp add: save_metric_def)
  have i3: "map dr_id rs
         = map uuids [n + length ms + length xs ..< n + length ms + length xs + length rs]"
    unfolding len unfolding rs_def by (rule map_ids_ids) (simp add: save_routine_def)
  show ?thesis
    unfolding ms0_def[symmetric] xs0_def[symmetric] rs0_def[symmetric]
    using sel len c h i1 i2 i3 by blast
qed

theorem handleSaveGoal_resets_progress_witness:
  "(\<exists>ms. dg_milestones (handleSaveGoal (\<lambda>i. replicate (Suc i) CHR ''u'') 0 sample_draft) = Some ms
        \<and> list_all (\<lambda>m. \<not> dm_completed m) ms)
   \<and> map_option (map dx_current)
        (dg_metrics (handleSaveGoal (\<lambda>i. replicate (Suc i) CHR ''u'') 0 sample_draft))
       = Some [MNum 0, MBool False]
   \<and> map_option (map dx_id)
        (dg_metrics (handleSaveGoal (\<lambda>i. replicate (Suc i) CHR ''u'') 0 sample_draft))
       = Some [''uu'', ''uuu'']"
proof -
  from handleSaveGoal_resets_progress[of "\<lambda>i. replicate (Suc i) CHR ''u''" 0 sample_draft]
  obtain ms where "dg_milestones (handleSaveGoal (\<lambda>i. replicate (Suc i) CHR ''u'') 0 sample_draft) = Some ms"
    "list_all (\<lambda>m. \<not> dm_completed m) ms"
    by blast
  then have a: "\<exists>ms. dg_milestones (handleSaveGoal (\<lambda>i. replicate (Suc i) CHR ''u'') 0 sample_draft) = Some ms
        \<and> list_all (\<lambda>m. \<not> dm_completed m) ms"
    by blast
  have b: "map_option (map dx_current)
        (dg_metrics (handleSaveGoal (\<lambda>i. replicate (Suc i) CHR ''u'') 0 sample_draft))
       = Some [MNum 0, MBool False]"
    by (simp add: handleSaveGoal_def sample_draft_def initial_draft_def list_or_empty_def
        save_metric_def Let_def)
  have c: "map_option (map dx_id)
        (dg_metrics (handleSaveGoal (\<lambda>i. replicate (Suc i) CHR ''u'') 0 sample_draft))
       = Some [''uu'', ''uuu'']"
    by (simp add: handleSaveGoal_def sample_draft_def initial_draft_def list_or_empty_def
        save_metric_def Let_def)
  from a b c show ?thesis by (intro conjI)
qed

section \<open>Properties of the notification poller\<close>

lemma read_back_invalid: "read_back d = InvalidDate"
  by (cases d) (simp_all add: new_Date_of_timestamp_def)

lemma milestone_notices_empty: "milestone_notices showDate now goal = []"
  by (simp add: milestone_notices_def read_back_invalid)

text \<open>
  Claim C8 does not hold of the code. The poller applies \<^verbatim>\<open>new Date\<close> to the target date as
  the snapshot returns it, a \<^verbatim>\<open>Timestamp\<close>, and gets Invalid Date; the comparison with the
  date one week ahead is then false, so the milestone pass produces no notice for any goal
  (\<open>milestone_notices_empty\<close>). The stored goal \<open>g1\<close> of user \<open>u1\<close> is active and its milestone
  \<open>m2\<close> is not completed and due at 1750000000000; a poll at 1749900000000, less than seven
  days earlier, lists the review notice of the goal and nothing else.
\<close>

theorem poll_omits_due_milestone_at_failing_input:
  "g_userId sample_goal = ''u1'' \<and> g_status sample_goal = ''active''
   \<and> map (\<lambda>m. (ms_id m, ms_completed m, ms_targetDate m)) (g_milestones sample_goal)
       = [(''m1'', True, Date 1750000000000), (''m2'', False, Date 1750000000000),
          (''m3'', False, Date 1750000000000)]
   \<and> (1750000000000::int) \<le> 1749900000000 + 7 * 24 * 60 * 60 * 1000
   \<and> map n_id (checkNotifications (\<lambda>t. ''soon'') (Some ''u1'') 1749900000000 [sample_goal] [])
       = [''review-g1'']"
  by (simp add: sample_goal_def sample_milestone_def checkNotifications_def
      milestone_notices_def review_notices_def deadline_notices_def
      new_Date_of_timestamp_def)
end
